theory Spec2Isabelle
  imports Complex_Main "HOL-Library.Signed_Division"
begin

section \<open>Numbers of the C sources\<close>

text \<open>
  Both example programs (\<^verbatim>\<open>ChnlExpSync.c\<close>, \<^verbatim>\<open>RefClkSync.c\<close>) compute on C
  \<^verbatim>\<open>double\<close> and \<^verbatim>\<open>int\<close>. Finite doubles are modelled as reals (no rounding,
  no overflow, the sign of a zero is not tracked). The one place where the
  programs leave the finite doubles, the division \<^verbatim>\<open>1/freq\<close> at frequency zero,
  is modelled with the IEEE-754 outcomes written out.
\<close>

datatype double = Finite real | Infinite | NaN

text \<open>
  \<^verbatim>\<open>x / y\<close> on doubles with finite operands: a nonzero value divided by zero is an
  infinity (its sign is not tracked), zero divided by zero is NaN.
\<close>

definition div_double :: "real \<Rightarrow> real \<Rightarrow> double" where
  "div_double x y =
     (if y \<noteq> 0 then Finite (x / y) else if x = 0 then NaN else Infinite)"

text \<open>\<^verbatim>\<open>x * y\<close> with a finite left operand: zero times infinity is NaN.\<close>

fun mult_double :: "real \<Rightarrow> double \<Rightarrow> double" where
  "mult_double x (Finite y) = Finite (x * y)"
| "mult_double x Infinite = (if x = 0 then NaN else Infinite)"
| "mult_double x NaN = NaN"

text \<open>
  \<^verbatim>\<open>int n = sampsPerChan;\<close> converts a \<^verbatim>\<open>long long\<close> to a 32-bit \<^verbatim>\<open>int\<close>. Out of
  range the result is implementation-defined; the usual compilers reduce modulo
  \<open>2^32\<close>, which is what is written here.
\<close>

definition INT_MAX :: int where
  "INT_MAX = 2147483647"

definition long_long_to_int :: "int \<Rightarrow> int" where
  "long_long_to_int x = (x + 2147483648) mod 4294967296 - 2147483648"

text \<open>
  \<^verbatim>\<open>maxMagnitude = dsaMagnitude;\<close> converts a double to \<^verbatim>\<open>int\<close>: the fractional
  part is discarded (truncation toward zero). When the truncated value does not
  fit an \<^verbatim>\<open>int\<close> the behaviour is undefined in C; the model returns \<open>None\<close> there.
\<close>

definition double_to_int :: "real \<Rightarrow> int option" where
  "double_to_int x =
     (let t = (if 0 \<le> x then \<lfloor>x\<rfloor> else \<lceil>x\<rceil>)
      in if - 2147483648 \<le> t \<and> t \<le> INT_MAX then Some t else None)"

text \<open>\<^verbatim>\<open>#define PI 3.14159265\<close> in both files.\<close>

definition PI :: real where
  "PI = 314159265 / 100000000"

text \<open>
  \<^verbatim>\<open>atan2(y, x)\<close> of \<^verbatim>\<open>math.h\<close>, by its mathematical definition: the angle of the
  point \<open>(x, y)\<close> in \<open>(-\<pi>, \<pi>]\<close>, and \<open>0\<close> at the origin.
\<close>

definition atan2 :: "real \<Rightarrow> real \<Rightarrow> real" where
  "atan2 y x =
     (if 0 < x then arctan (y / x)
      else if x < 0 then (if 0 \<le> y then arctan (y / x) + pi else arctan (y / x) - pi)
      else if 0 < y then pi / 2
      else if y < 0 then - (pi / 2)
      else 0)"

text \<open>
  \<^verbatim>\<open>fftw_complex\<close> is \<^verbatim>\<open>double[2]\<close>; \<^verbatim>\<open>REAL\<close> is index 0 and \<^verbatim>\<open>IMAG\<close> index 1.
\<close>

type_synonym fftw_complex = "real \<times> real"

abbreviation REAL :: "fftw_complex \<Rightarrow> real" where
  "REAL c \<equiv> fst c"

abbreviation IMAG :: "fftw_complex \<Rightarrow> real" where
  "IMAG c \<equiv> snd c"


section \<open>Phase-angle normalisation (both files)\<close>

text \<open>
  \<^verbatim>\<open>
  double NormalizePhaseAngleDifference(double phase)
  {
      if (phase > 270)
          phase = phase - 360;
      if (phase < -90)
          phase = phase + 360;
      return phase;
  }
  \<close>
  The second test reads the value the first branch may have changed.
\<close>

definition NormalizePhaseAngleDifference :: "real \<Rightarrow> real" where
  "NormalizePhaseAngleDifference phase =
     (let phase1 = (if phase > 270 then phase - 360 else phase);
          phase2 = (if phase1 < - 90 then phase1 + 360 else phase1)
      in phase2)"


section \<open>Data of the analysis\<close>

text \<open>
  One line of the DFT CSV file, as the values handed to \<^verbatim>\<open>fprintf\<close> (the
  formatting to a fixed number of decimals is not modelled):
  \<^verbatim>\<open>freq, dsaMagnitude, dsaAmplitude, mioMagnitude, mioAmplitude\<close>.
\<close>

record csv_row =
  row_freq :: real
  row_dsaMagnitude :: real
  row_dsaAmplitude :: real
  row_mioMagnitude :: real
  row_mioAmplitude :: real

text \<open>
  The three locations \<^verbatim>\<open>double *measuredPhaseSkewDeg, *measuredPhaseSkewSec,
  *measuredFreq\<close> that \<^verbatim>\<open>DFT\<close> writes through. They are three distinct locals of
  \<^verbatim>\<open>EveryNCallback\<close>, so a record of three values stands for them.
\<close>

record measurement =
  measuredPhaseSkewDeg :: real
  measuredPhaseSkewSec :: double
  measuredFreq :: real

text \<open>
  Ways in which a run leaves defined behaviour: FFTW is asked for a transform
  whose size is not positive, a magnitude is converted to an \<^verbatim>\<open>int\<close> it does
  not fit, an \<^verbatim>\<open>int\<close> counter is incremented past \<^verbatim>\<open>INT_MAX\<close>, or an array
  is accessed past its end.
\<close>

datatype fault =
  FFTW_size_not_positive | Double_to_int_out_of_range | Int_overflow | Array_out_of_bounds

text \<open>\<^verbatim>\<open>sqrt((re*re) + (im*im))\<close>, written out in the source at every use.\<close>

definition magnitude :: "fftw_complex \<Rightarrow> real" where
  "magnitude c = sqrt (REAL c * REAL c + IMAG c * IMAG c)"

text \<open>\<^verbatim>\<open>atan2(im, re) * (180/PI)\<close>, likewise written out at every use.\<close>

definition phase_deg :: "fftw_complex \<Rightarrow> real" where
  "phase_deg c = atan2 (IMAG c) (REAL c) * (180 / PI)"


section \<open>\<^verbatim>\<open>DFT\<close> of ChnlExpSync.c (single task)\<close>

text \<open>
  The arrays \<open>dsaOutput\<close> and \<open>mioOutput\<close> are the two spectra as
  \<^verbatim>\<open>fftw_execute\<close> leaves them (FFTW is a library outside the repository).
  This section is \<^verbatim>\<open>DFT\<close> from that point on; the allocation of the arrays
  and the transform come in a section of their own below. The state of the loop
  over the bins: the two \<^verbatim>\<open>int\<close> variables and the lines written to the CSV
  file so far.
\<close>

record scan_state =
  maxMagnitudeIndex :: int
  maxMagnitude :: int
  csv_lines :: "csv_row list"

text \<open>
  The body of \<^verbatim>\<open>for (int i = 0; i < nc; i++)\<close>, source lines 334 to 355.
  \<^verbatim>\<open>maxMagnitude\<close> is an \<^verbatim>\<open>int\<close>: the comparisons convert it to double, the
  assignment \<^verbatim>\<open>maxMagnitude = dsaMagnitude\<close> truncates.
\<close>

definition ChnlExp_bin ::
  "real \<Rightarrow> int \<Rightarrow> fftw_complex list \<Rightarrow> fftw_complex list \<Rightarrow> nat \<Rightarrow> scan_state
     \<Rightarrow> fault + scan_state" where
  "ChnlExp_bin binPrecision n dsaOutput mioOutput i s =
     (let freq = real i * binPrecision;
          dsaMagnitude = magnitude (dsaOutput ! i);
          mioMagnitude = magnitude (mioOutput ! i);
          dsaAmplitude = dsaMagnitude * 2 / real_of_int n;
          mioAmplitude = mioMagnitude * 2 / real_of_int n;
          s1 = s\<lparr>csv_lines := csv_lines s @
                 [\<lparr>row_freq = freq,
                   row_dsaMagnitude = dsaMagnitude, row_dsaAmplitude = dsaAmplitude,
                   row_mioMagnitude = mioMagnitude, row_mioAmplitude = mioAmplitude\<rparr>]\<rparr>
      in if dsaMagnitude \<ge> real_of_int (maxMagnitude s)
            \<and> mioMagnitude \<ge> real_of_int (maxMagnitude s)
         then (case double_to_int dsaMagnitude of
                 None \<Rightarrow> Inl Double_to_int_out_of_range
               | Some m \<Rightarrow> Inr (s1\<lparr>maxMagnitude := m, maxMagnitudeIndex := int i\<rparr>))
         else Inr s1)"

text \<open>
  The state after the iterations \<open>i = 0, \<dots>, k - 1\<close>, starting from
  \<^verbatim>\<open>maxMagnitudeIndex = 0\<close>, \<^verbatim>\<open>maxMagnitude = 0\<close>.
\<close>

primrec ChnlExp_loop ::
  "real \<Rightarrow> int \<Rightarrow> fftw_complex list \<Rightarrow> fftw_complex list \<Rightarrow> nat \<Rightarrow> fault + scan_state" where
  "ChnlExp_loop binPrecision n dsaOutput mioOutput 0 =
     Inr \<lparr>maxMagnitudeIndex = 0, maxMagnitude = 0, csv_lines = []\<rparr>"
| "ChnlExp_loop binPrecision n dsaOutput mioOutput (Suc k) =
     (case ChnlExp_loop binPrecision n dsaOutput mioOutput k of
        Inl e \<Rightarrow> Inl e
      | Inr s \<Rightarrow> ChnlExp_bin binPrecision n dsaOutput mioOutput k s)"

text \<open>
  Source lines 358 to 378: the phases at the selected bin, the skew in degrees
  and in seconds, and the frequency. Both skews are computed from
  \<^verbatim>\<open>dsaPhase-mioPhase\<close>.
\<close>

definition ChnlExp_estimate ::
  "real \<Rightarrow> fftw_complex list \<Rightarrow> fftw_complex list \<Rightarrow> int \<Rightarrow> measurement" where
  "ChnlExp_estimate binPrecision dsaOutput mioOutput maxMagnitudeIndex' =
     (let maxFreq = real_of_int maxMagnitudeIndex' * binPrecision;
          dsaPhase = phase_deg (dsaOutput ! nat maxMagnitudeIndex');
          mioPhase = phase_deg (mioOutput ! nat maxMagnitudeIndex');
          phaseSkewDeg = NormalizePhaseAngleDifference (dsaPhase - mioPhase);
          phaseSkewSec = mult_double ((dsaPhase - mioPhase) / 360) (div_double 1 maxFreq)
      in \<lparr>measuredPhaseSkewDeg = phaseSkewDeg,
          measuredPhaseSkewSec = phaseSkewSec,
          measuredFreq = maxFreq\<rparr>)"

text \<open>
  \<^verbatim>\<open>DFT\<close> as a whole: the sizes \<^verbatim>\<open>n\<close> and \<^verbatim>\<open>nc = (n/2)+1\<close> (C division
  truncates), \<^verbatim>\<open>binPrecision = sampleRate/sampsPerChan\<close> on the unconverted
  \<^verbatim>\<open>long long\<close>, the loop, the estimate. The result is the CSV lines and the
  three values written through the pointers.
\<close>

definition ChnlExp_DFT ::
  "fftw_complex list \<Rightarrow> fftw_complex list \<Rightarrow> real \<Rightarrow> int
     \<Rightarrow> fault + (csv_row list \<times> measurement)" where
  "ChnlExp_DFT dsaOutput mioOutput sampleRate sampsPerChan =
     (let n = long_long_to_int sampsPerChan;
          nc = n sdiv 2 + 1;
          binPrecision = sampleRate / real_of_int sampsPerChan
      in if n \<le> 0 then Inl FFTW_size_not_positive
         else (case ChnlExp_loop binPrecision n dsaOutput mioOutput (nat nc) of
                 Inl e \<Rightarrow> Inl e
               | Inr s \<Rightarrow>
                   Inr (csv_lines s,
                        ChnlExp_estimate binPrecision dsaOutput mioOutput
                          (maxMagnitudeIndex s))))"


section \<open>\<^verbatim>\<open>DFT\<close> of RefClkSync.c (two tasks)\<close>

text \<open>
  The body of the loop, source lines 316 to 344. Every bin computes its own
  phases and skews; the three outputs are assigned inside
  \<^verbatim>\<open>if ( dsaMagnitude >= 5 && mioMagnitude >= 5)\<close> only.
\<close>

definition RefClk_bin ::
  "real \<Rightarrow> int \<Rightarrow> int \<Rightarrow> fftw_complex list \<Rightarrow> fftw_complex list \<Rightarrow> nat
     \<Rightarrow> measurement \<times> csv_row list \<Rightarrow> measurement \<times> csv_row list" where
  "RefClk_bin sampleRate sampsPerChan n dsaOutput mioOutput i st =
     (let freq = real i * (sampleRate / real_of_int sampsPerChan);
          dsaMagnitude = magnitude (dsaOutput ! i);
          mioMagnitude = magnitude (mioOutput ! i);
          dsaAmplitude = dsaMagnitude * 2 / real_of_int n;
          mioAmplitude = mioMagnitude * 2 / real_of_int n;
          dsaPhase = phase_deg (dsaOutput ! i);
          mioPhase = phase_deg (mioOutput ! i);
          phaseSkewDeg = NormalizePhaseAngleDifference (dsaPhase - mioPhase);
          phaseSkewSec = mult_double ((dsaPhase - mioPhase) / 360) (div_double 1 freq);
          outs = (if dsaMagnitude \<ge> 5 \<and> mioMagnitude \<ge> 5
                  then \<lparr>measuredPhaseSkewDeg = phaseSkewDeg,
                        measuredPhaseSkewSec = phaseSkewSec,
                        measuredFreq = freq\<rparr>
                  else fst st)
      in (outs,
          snd st @
            [\<lparr>row_freq = freq,
              row_dsaMagnitude = dsaMagnitude, row_dsaAmplitude = dsaAmplitude,
              row_mioMagnitude = mioMagnitude, row_mioAmplitude = mioAmplitude\<rparr>]))"

primrec RefClk_loop ::
  "real \<Rightarrow> int \<Rightarrow> int \<Rightarrow> fftw_complex list \<Rightarrow> fftw_complex list \<Rightarrow> nat
     \<Rightarrow> measurement \<times> csv_row list \<Rightarrow> measurement \<times> csv_row list" where
  "RefClk_loop sampleRate sampsPerChan n dsaOutput mioOutput 0 st = st"
| "RefClk_loop sampleRate sampsPerChan n dsaOutput mioOutput (Suc k) st =
     RefClk_bin sampleRate sampsPerChan n dsaOutput mioOutput k
       (RefClk_loop sampleRate sampsPerChan n dsaOutput mioOutput k st)"

text \<open>
  \<^verbatim>\<open>DFT\<close> as a whole. The last argument is what the three output locations hold
  when \<^verbatim>\<open>DFT\<close> is called; the result holds what they hold when it returns.
\<close>

definition RefClk_DFT ::
  "fftw_complex list \<Rightarrow> fftw_complex list \<Rightarrow> real \<Rightarrow> int \<Rightarrow> measurement
     \<Rightarrow> fault + (measurement \<times> csv_row list)" where
  "RefClk_DFT dsaOutput mioOutput sampleRate sampsPerChan outs =
     (let n = long_long_to_int sampsPerChan;
          nc = n sdiv 2 + 1
      in if n \<le> 0 then Inl FFTW_size_not_positive
         else Inr (RefClk_loop sampleRate sampsPerChan n dsaOutput mioOutput (nat nc) (outs, [])))"

text \<open>
  \<^verbatim>\<open>EveryNCallback\<close> of RefClkSync.c, lines 202 and 215 to 235: the three
  doubles start at zero, \<^verbatim>\<open>DFT\<close> is called with the configured
  \<^verbatim>\<open>sampleRate = 10000.0\<close> and \<^verbatim>\<open>sampsPerChan = 1000\<close>, and the three values are
  printed. The arguments are the spectra of the two chunks the callback has
  read (the acquisition and FFTW are outside the repository); the result is the
  printed triple.
\<close>

definition RefClk_sampleRate :: real where
  "RefClk_sampleRate = 10000"

definition RefClk_sampsPerChan :: int where
  "RefClk_sampsPerChan = 1000"

definition RefClk_EveryNCallback ::
  "fftw_complex list \<Rightarrow> fftw_complex list \<Rightarrow> fault + measurement" where
  "RefClk_EveryNCallback dsaOutput mioOutput =
     (case RefClk_DFT dsaOutput mioOutput RefClk_sampleRate RefClk_sampsPerChan
             \<lparr>measuredPhaseSkewDeg = 0, measuredPhaseSkewSec = Finite 0, measuredFreq = 0\<rparr> of
        Inl e \<Rightarrow> Inl e
      | Inr r \<Rightarrow> Inr (fst r))"


section \<open>The transform stage of \<^verbatim>\<open>DFT\<close> (both files)\<close>

text \<open>
  \<^verbatim>\<open>
  void StoreData(int arraySize, double *dataToAllocate, double *output)
  {
      for (int i = 0; i < arraySize; i++)
      {
          output[i] = dataToAllocate[i];
      }
  }
  \<close>
  An array shorter than \<^verbatim>\<open>arraySize\<close> would be accessed past its end.
\<close>

primrec StoreData_loop :: "real list \<Rightarrow> nat \<Rightarrow> real list \<Rightarrow> real list" where
  "StoreData_loop dataToAllocate 0 output = output"
| "StoreData_loop dataToAllocate (Suc i) output =
     (StoreData_loop dataToAllocate i output)[i := dataToAllocate ! i]"

definition StoreData :: "int \<Rightarrow> real list \<Rightarrow> real list \<Rightarrow> fault + real list" where
  "StoreData arraySize dataToAllocate output =
     (if int (length dataToAllocate) < arraySize \<or> int (length output) < arraySize
      then Inl Array_out_of_bounds
      else Inr (StoreData_loop dataToAllocate (nat arraySize) output))"

text \<open>
  The first part of \<^verbatim>\<open>DFT\<close> (ChnlExpSync.c lines 294 to 322, RefClkSync.c
  lines 282 to 307, the same statements):
  \<^verbatim>\<open>
  int n = sampsPerChan;
  int nc = (n/2)+1;
  dsaInput = (double*)fftw_malloc(sizeof(double) * n);
  dsaOutput = (fftw_complex*)fftw_malloc(sizeof(fftw_complex) * nc);
  StoreData(n,dsaData,dsaInput);
  dsaDFT = fftw_plan_dft_r2c_1d(n,dsaInput,dsaOutput,FFTW_ESTIMATE);
  fftw_execute(dsaDFT);
  \<close>
  and likewise for the second channel. The input array has \<open>n\<close> cells; what
  they hold after \<^verbatim>\<open>fftw_malloc\<close> is unspecified and \<^verbatim>\<open>StoreData\<close> overwrites
  every one, so the model starts them at 0. The output array has \<open>nc\<close> cells,
  and the plan of size \<open>n\<close> writes the bins \<open>0, \<dots>, n/2\<close> into it. FFTW is a
  library outside the repository: the value it leaves in bin \<open>k\<close> for a plan of
  size \<open>n\<close> on the input \<open>x\<close> is the parameter \<open>r2c n x k\<close>. A failed allocation is
  not modelled.
\<close>

definition DFT_transform ::
  "(nat \<Rightarrow> real list \<Rightarrow> nat \<Rightarrow> fftw_complex) \<Rightarrow> real list \<Rightarrow> real list \<Rightarrow> int
     \<Rightarrow> fault + fftw_complex list \<times> fftw_complex list" where
  "DFT_transform r2c dsaData mioData sampsPerChan =
     (let n = long_long_to_int sampsPerChan;
          nc = n sdiv 2 + 1
      in if n \<le> 0 then Inl FFTW_size_not_positive
         else (case StoreData n dsaData (replicate (nat n) 0) of
                 Inl e \<Rightarrow> Inl e
               | Inr dsaInput \<Rightarrow>
                   (case StoreData n mioData (replicate (nat n) 0) of
                      Inl e \<Rightarrow> Inl e
                    | Inr mioInput \<Rightarrow>
                        Inr (map (r2c (nat n) dsaInput) [0..<nat nc],
                             map (r2c (nat n) mioInput) [0..<nat nc]))))"

text \<open>
  \<^verbatim>\<open>DFT\<close> from its arguments: the transform stage, then the part modelled
  above on the two spectra.
\<close>

definition ChnlExp_DFT_of_chunks ::
  "(nat \<Rightarrow> real list \<Rightarrow> nat \<Rightarrow> fftw_complex) \<Rightarrow> real list \<Rightarrow> real list \<Rightarrow> real \<Rightarrow> int
     \<Rightarrow> fault + (csv_row list \<times> measurement)" where
  "ChnlExp_DFT_of_chunks r2c dsaData mioData sampleRate sampsPerChan =
     (case DFT_transform r2c dsaData mioData sampsPerChan of
        Inl e \<Rightarrow> Inl e
      | Inr (dsaOutput, mioOutput) \<Rightarrow> ChnlExp_DFT dsaOutput mioOutput sampleRate sampsPerChan)"

definition RefClk_DFT_of_chunks ::
  "(nat \<Rightarrow> real list \<Rightarrow> nat \<Rightarrow> fftw_complex) \<Rightarrow> real list \<Rightarrow> real list \<Rightarrow> real \<Rightarrow> int
     \<Rightarrow> measurement \<Rightarrow> fault + (measurement \<times> csv_row list)" where
  "RefClk_DFT_of_chunks r2c dsaData mioData sampleRate sampsPerChan outs =
     (case DFT_transform r2c dsaData mioData sampsPerChan of
        Inl e \<Rightarrow> Inl e
      | Inr (dsaOutput, mioOutput) \<Rightarrow> RefClk_DFT dsaOutput mioOutput sampleRate sampsPerChan outs)"

text \<open>
  The transform a real-to-complex plan of FFTW computes, by its documentation
  the forward discrete Fourier transform
  \<open>Y\<^sub>k = \<Sum>\<^sub>j X\<^sub>j (cos (2\<pi>jk/n) - i sin (2\<pi>jk/n))\<close>. It is the transform used where
  a run on concrete samples is evaluated; the theorems below hold for every
  \<open>r2c\<close>.
\<close>

definition forward_dft :: "nat \<Rightarrow> real list \<Rightarrow> nat \<Rightarrow> fftw_complex" where
  "forward_dft n x k =
     (\<Sum>j<n. x ! j * cos (2 * pi * real j * real k / real n),
      \<Sum>j<n. - (x ! j * sin (2 * pi * real j * real k / real n)))"


section \<open>The skew in seconds as the specification reads it\<close>

text \<open>
  The two readings of the skew in seconds in the specification (section 4.4,
  step 5), for the spectrum values \<open>a\<close> and \<open>b\<close> of the two channels at a bin of
  frequency \<open>f\<close>: from the pre-normalisation difference \<open>d\<close>, and from the
  normalised difference ("post-normalization value in the single-task
  variant"). They are compared with the source below.
\<close>

definition spec_phaseSkewSec_pre_normalization ::
  "fftw_complex \<Rightarrow> fftw_complex \<Rightarrow> real \<Rightarrow> double" where
  "spec_phaseSkewSec_pre_normalization a b f =
     mult_double ((phase_deg a - phase_deg b) / 360) (div_double 1 f)"

definition spec_phaseSkewSec_post_normalization ::
  "fftw_complex \<Rightarrow> fftw_complex \<Rightarrow> real \<Rightarrow> double" where
  "spec_phaseSkewSec_post_normalization a b f =
     mult_double (NormalizePhaseAngleDifference (phase_deg a - phase_deg b) / 360)
       (div_double 1 f)"


section \<open>Splitting the interleaved buffer (\<^verbatim>\<open>EveryNCallback\<close> of ChnlExpSync.c)\<close>

text \<open>
  \<^verbatim>\<open>
  int j = 0;
  for (int i = 0; i < sampsPerChan; i++)
  {
      dsaData[i] = totalData[j];
      mioData[i] = totalData[j+1];
      j = j + 2;
  }
  \<close>
  The state is the two destination arrays and \<open>j\<close>. Both \<open>i\<close> and \<open>j\<close> are
  \<^verbatim>\<open>int\<close>: \<^verbatim>\<open>j = j + 2\<close> and \<^verbatim>\<open>i++\<close> past \<^verbatim>\<open>INT_MAX\<close> are undefined in C,
  and the model stops there with \<open>Int_overflow\<close>. (\<^verbatim>\<open>sampsPerChan\<close> is a
  \<^verbatim>\<open>uInt64\<close>, so the test \<^verbatim>\<open>i < sampsPerChan\<close> compares the non-negative \<open>i\<close>
  as an unsigned number.)
\<close>

primrec split_loop ::
  "real list \<Rightarrow> nat \<Rightarrow> real list \<times> real list \<times> int
     \<Rightarrow> fault + real list \<times> real list \<times> int" where
  "split_loop totalData 0 st = Inr st"
| "split_loop totalData (Suc i) st =
     (case split_loop totalData i st of
        Inl e \<Rightarrow> Inl e
      | Inr (dsaData, mioData, j) \<Rightarrow>
          if INT_MAX < j + 2 \<or> INT_MAX < int i + 1 then Inl Int_overflow
          else Inr (dsaData[i := totalData ! nat j],
                    mioData[i := totalData ! nat (j + 1)],
                    j + 2))"

definition split_data ::
  "real list \<Rightarrow> nat \<Rightarrow> real list \<Rightarrow> real list \<Rightarrow> fault + real list \<times> real list" where
  "split_data totalData sampsPerChan dsaData mioData =
     (case split_loop totalData sampsPerChan (dsaData, mioData, 0) of
        Inl e \<Rightarrow> Inl e
      | Inr (dsaData', mioData', j) \<Rightarrow> Inr (dsaData', mioData'))"

text \<open>
  The inverse the specification speaks of (\<open>[ch0_0, ch1_0, ch0_1, ch1_1, \<dots>]\<close>);
  the source has no such function.
\<close>

fun interleave :: "'a list \<Rightarrow> 'a list \<Rightarrow> 'a list" where
  "interleave (x # xs) (y # ys) = x # y # interleave xs ys"
| "interleave xs ys = []"


section \<open>The normalisation rule\<close>

text \<open>
  The two tests never both fire: a value above 270 lands in \<open>(-90, \<infinity>)\<close> after
  the subtraction, so the function is a three-way case distinction.
\<close>

lemma Normalize_cases:
  "NormalizePhaseAngleDifference d =
     (if d > 270 then d - 360 else if d < - 90 then d + 360 else d)"
  by (simp add: NormalizePhaseAngleDifference_def Let_def)

text \<open>
  C5, as stated, at \<open>d = -90\<close>: the input lies in \<open>(-360, 360)\<close>, the test
  \<^verbatim>\<open>phase < -90\<close> is strict, and the result \<open>-90\<close> is not in the half-open
  interval \<open>(-90, 270]\<close>.
\<close>

theorem C5_counterexample:
  "- 360 < (- 90::real) \<and> (- 90::real) < 360 \<and>
   \<not> (- 90 < NormalizePhaseAngleDifference (- 90) \<and> NormalizePhaseAngleDifference (- 90) \<le> 270)"
  by (simp add: NormalizePhaseAngleDifference_def)

text \<open>
  C5, amended: for every real \<open>d\<close> the function is exactly the two-threshold rule
  (above 270 subtract 360, below \<open>-90\<close> add 360), so that
  \<open>normalize(300) = -60\<close>, \<open>normalize(-200) = 160\<close>, \<open>normalize(270) = 270\<close> and
  \<open>normalize(271) = -89\<close>; and for every \<open>d\<close> in the open interval \<open>(-360, 360)\<close> the
  result lies in the closed interval \<open>[-90, 270]\<close>.
\<close>

theorem C5_normalize:
  "NormalizePhaseAngleDifference d =
     (if d > 270 then d - 360 else if d < - 90 then d + 360 else d)
   \<and> NormalizePhaseAngleDifference 300 = - 60
   \<and> NormalizePhaseAngleDifference (- 200) = 160
   \<and> NormalizePhaseAngleDifference 270 = 270
   \<and> NormalizePhaseAngleDifference 271 = - 89
   \<and> (- 360 < d \<and> d < 360 \<longrightarrow>
        - 90 \<le> NormalizePhaseAngleDifference d \<and> NormalizePhaseAngleDifference d \<le> 270)"
  by (simp add: NormalizePhaseAngleDifference_def Let_def)

theorem C5_normalize_witness:
  "- 360 < (- 90::real) \<and> (- 90::real) < 360
   \<and> - 90 \<le> NormalizePhaseAngleDifference (- 90)
   \<and> NormalizePhaseAngleDifference (- 90) \<le> 270"
  using C5_normalize [of "- 90"] by simp


section \<open>The split of the interleaved buffer\<close>

text \<open>
  Up to \<open>2^30 - 1\<close> iterations the loop runs without overflow and \<open>j = 2k\<close>
  after \<open>k\<close> of them.
\<close>

lemma split_loop_j:
  "k \<le> 1073741823 \<Longrightarrow>
   \<exists>d m. split_loop totalData k (d0, m0, 0) = Inr (d, m, 2 * int k)"
proof (induction k)
  case 0
  then show ?case by simp
next
  case (Suc k)
  then obtain d m where "split_loop totalData k (d0, m0, 0) = Inr (d, m, 2 * int k)"
    by auto
  with Suc.prems show ?case by (simp add: INT_MAX_def)
qed

text \<open>
  Iteration \<open>i = 2^30 - 1\<close> computes \<open>j + 2 = 2^31\<close>: with \<open>2^30\<close> or more
  samples per channel the loop overflows \<open>j\<close>.
\<close>

lemma split_loop_overflow:
  "split_loop totalData (1073741824 + e) (d0, m0, 0) = Inl Int_overflow"
proof (induction e)
  case 0
  from split_loop_j [of 1073741823 totalData d0 m0]
  obtain d m where "split_loop totalData 1073741823 (d0, m0, 0) = Inr (d, m, 2 * int 1073741823)"
    by auto
  then have "split_loop totalData (Suc 1073741823) (d0, m0, 0) = Inl Int_overflow"
    by (subst split_loop.simps(2)) (simp add: INT_MAX_def)
  moreover have "(1073741824::nat) + 0 = Suc 1073741823" by simp
  ultimately show ?case by (simp only:)
next
  case (Suc e)
  have "split_loop totalData (Suc (1073741824 + e)) (d0, m0, 0) = Inl Int_overflow"
    by (subst split_loop.simps(2)) (simp add: Suc.IH)
  then show ?case by (simp only: add_Suc_right)
qed

text \<open>
  Invariant of the loop after \<open>k\<close> iterations: the first \<open>k\<close> cells of both
  arrays hold the even and the odd cells of the buffer, the other cells are
  untouched.
\<close>

lemma split_loop_inv:
  "length totalData = 2 * N \<Longrightarrow> length d0 = N \<Longrightarrow> length m0 = N \<Longrightarrow> k \<le> N \<Longrightarrow>
   split_loop totalData k (d0, m0, 0) = Inr (d, m, j) \<Longrightarrow>
   j = 2 * int k \<and> length d = N \<and> length m = N
   \<and> (\<forall>i<k. d ! i = totalData ! (2 * i) \<and> m ! i = totalData ! (2 * i + 1))
   \<and> (\<forall>i. k \<le> i \<longrightarrow> i < N \<longrightarrow> d ! i = d0 ! i \<and> m ! i = m0 ! i)"
proof (induction k arbitrary: d m j)
  case 0
  then show ?case by simp
next
  case (Suc k)
  from Suc.prems(5) obtain d1 m1 j1 where
    prev: "split_loop totalData k (d0, m0, 0) = Inr (d1, m1, j1)"
    and d: "d = d1[k := totalData ! nat j1]"
    and m: "m = m1[k := totalData ! nat (j1 + 1)]" and j: "j = j1 + 2"
    by (auto split: sum.splits if_splits)
  from Suc.prems have kN: "k \<le> N" "k < N" by simp_all
  note IH = Suc.IH [OF Suc.prems(1-3) kN(1) prev]
  from IH have j1: "j1 = 2 * int k" and ld: "length d1 = N" and lm: "length m1 = N" by simp_all
  have idx: "nat (2 * int k) = 2 * k" "nat (2 * int k + 1) = Suc (2 * k)" by linarith+
  show ?case
    using IH kN(2) by (auto simp: d m j idx ld lm nth_list_update less_Suc_eq)
qed

text \<open>Two lists that hold the even and the odd cells of a third interleave to it.\<close>

lemma interleave_nth:
  "length xs = length ys \<Longrightarrow> length zs = 2 * length xs \<Longrightarrow>
   \<forall>i<length xs. xs ! i = zs ! (2 * i) \<and> ys ! i = zs ! (2 * i + 1) \<Longrightarrow>
   interleave xs ys = zs"
proof (induction xs ys arbitrary: zs rule: interleave.induct)
  case (1 x xs y ys)
  then obtain a b zs' where zs: "zs = a # b # zs'"
    by (cases zs; cases "tl zs") auto
  from 1(4) have "x = zs ! 0" "y = zs ! 1"
    by (metis length_Cons mult_0_right nth_Cons_0 zero_less_Suc,
        metis add_0 length_Cons mult_0_right nth_Cons_0 zero_less_Suc)
  then have ab: "a = x" "b = y" by (simp_all add: zs)
  have "interleave xs ys = zs'"
  proof (rule 1(1))
    show "length xs = length ys" using 1(2) by simp
    show "length zs' = 2 * length xs" using 1(3) zs by simp
    show "\<forall>i<length xs. xs ! i = zs' ! (2 * i) \<and> ys ! i = zs' ! (2 * i + 1)"
    proof (intro allI impI)
      fix i assume "i < length xs"
      then have "Suc i < length (x # xs)" by simp
      with 1(4) have "(x # xs) ! Suc i = zs ! (2 * Suc i) \<and> (y # ys) ! Suc i = zs ! (2 * Suc i + 1)"
        by blast
      then show "xs ! i = zs' ! (2 * i) \<and> ys ! i = zs' ! (2 * i + 1)"
        by (simp add: zs)
    qed
  qed
  then show ?case by (simp add: zs ab)
qed simp_all

text \<open>
  C7, as stated, at \<open>N = 2^30\<close>: the buffer has length \<open>2N = 2^31\<close> and the
  destination arrays length \<open>N\<close>, and the loop does not produce the two
  sequences: its last iteration computes \<^verbatim>\<open>j = j + 2\<close> with \<open>j = 2^31 - 2\<close>,
  which overflows the \<^verbatim>\<open>int\<close>.
\<close>

theorem C7_counterexample:
  "length (replicate 2147483648 (0::real)) = 2 * 1073741824
   \<and> length (replicate 1073741824 (0::real)) = 1073741824
   \<and> split_data (replicate 2147483648 0) 1073741824
         (replicate 1073741824 0) (replicate 1073741824 0) = Inl Int_overflow"
  using split_loop_overflow [of "replicate 2147483648 0" 0
      "replicate 1073741824 0" "replicate 1073741824 0"]
  by (simp add: split_data_def)

text \<open>
  C7, amended: for every interleaved buffer \<open>totalData\<close> of length \<open>2N\<close> with
  \<open>N \<le> 2^30 - 1\<close> (so that the \<^verbatim>\<open>int\<close> index \<open>j\<close> reaches \<open>2N\<close> without
  overflow), and destination arrays of length \<open>N\<close>, whatever they held, the
  split completes and yields two sequences of length \<open>N\<close> with channel-A
  element \<open>i\<close> equal to buffer element \<open>2i\<close> and channel-B element \<open>i\<close> equal to
  buffer element \<open>2i+1\<close>, and interleaving the two again gives the buffer back.
\<close>

theorem C7_split_data:
  assumes "length totalData = 2 * N" and "length dsaData = N" and "length mioData = N"
    and "N \<le> 1073741823"
  shows "\<exists>dsaData' mioData'.
           split_data totalData N dsaData mioData = Inr (dsaData', mioData')
         \<and> length dsaData' = N \<and> length mioData' = N
         \<and> (\<forall>i<N. dsaData' ! i = totalData ! (2 * i)
                 \<and> mioData' ! i = totalData ! (2 * i + 1))
         \<and> interleave dsaData' mioData' = totalData"
proof -
  from split_loop_j [OF assms(4), of totalData dsaData mioData]
  obtain d m where run: "split_loop totalData N (dsaData, mioData, 0) = Inr (d, m, 2 * int N)"
    by blast
  have res: "split_data totalData N dsaData mioData = Inr (d, m)"
    by (simp add: split_data_def run)
  from split_loop_inv [OF assms(1-3) le_refl run]
  have len: "length d = N" "length m = N"
    and nth: "\<forall>i<N. d ! i = totalData ! (2 * i) \<and> m ! i = totalData ! (2 * i + 1)"
    by simp_all
  have "interleave d m = totalData"
    by (rule interleave_nth) (use len nth assms(1) in simp_all)
  with len nth res show ?thesis by blast
qed

text \<open>The amended C7 on a buffer of four samples.\<close>

theorem C7_split_data_witness:
  "length [1, 2, 3, 4 :: real] = 2 * 2 \<and> length [0, 0 :: real] = 2 \<and> (2::nat) \<le> 1073741823
   \<and> split_data [1, 2, 3, 4] 2 [0, 0] [0, 0] = Inr ([1, 3], [2, 4])
   \<and> interleave [1, 3] [2, 4 :: real] = [1, 2, 3, 4]"
  using C7_split_data [of "[1, 2, 3, 4]" 2 "[0, 0]" "[0, 0]"]
  by (simp add: split_data_def numeral_2_eq_2 INT_MAX_def)


section \<open>Facts about the numbers\<close>

text \<open>
  Magnitudes are never negative; on the real and on the imaginary axis they
  are absolute values.
\<close>

lemma magnitude_nonneg: "0 \<le> magnitude c"
  by (simp add: magnitude_def)

lemma magnitude_real: "magnitude (x, 0) = \<bar>x\<bar>"
  by (simp add: magnitude_def)

lemma magnitude_imag: "magnitude (0, y) = \<bar>y\<bar>"
  by (simp add: magnitude_def)

text \<open>
  A magnitude below \<open>2^31\<close> converts to its floor; a \<^verbatim>\<open>long long\<close> in the range
  of \<^verbatim>\<open>int\<close> converts to itself; for a positive \<^verbatim>\<open>n\<close> the C quotient is the
  floor quotient.
\<close>

lemma double_to_int_nonneg:
  "0 \<le> x \<Longrightarrow> x < 2147483648 \<Longrightarrow> double_to_int x = Some \<lfloor>x\<rfloor>"
proof -
  assume x: "0 \<le> x" "x < 2147483648"
  then have "0 \<le> \<lfloor>x\<rfloor>" and "\<lfloor>x\<rfloor> < 2147483648"
    by (simp_all add: floor_less_iff)
  with x(1) show ?thesis
    by (simp add: double_to_int_def INT_MAX_def Let_def)
qed

lemma long_long_to_int_id:
  "- 2147483648 \<le> x \<Longrightarrow> x \<le> INT_MAX \<Longrightarrow> long_long_to_int x = x"
  by (simp add: long_long_to_int_def INT_MAX_def)

lemma nc_pos: "0 < n \<Longrightarrow> n sdiv 2 + 1 = n div 2 + 1" for n :: int
  by (simp add: signed_divide_int_def)

lemma sizes_4: "long_long_to_int 4 = 4" "nat ((4::int) sdiv 2 + 1) = 3"
  by (simp_all add: long_long_to_int_def signed_divide_int_def)

lemma sizes_wrapped: "long_long_to_int 4294967298 = 2" "nat ((2::int) sdiv 2 + 1) = 2"
  by (simp_all add: long_long_to_int_def signed_divide_int_def)

lemma sizes_configured:
  "long_long_to_int RefClk_sampsPerChan = 1000"
  "nat (long_long_to_int RefClk_sampsPerChan sdiv 2 + 1) = 501"
  by (simp_all add: RefClk_sampsPerChan_def long_long_to_int_def signed_divide_int_def)

text \<open>
  Phases on the axes, and the skew in seconds at frequency zero: the division
  \<^verbatim>\<open>1/0\<close> gives an infinity, and the product with it is NaN when the phase
  difference is zero and an infinity otherwise.
\<close>

lemma phase_deg_origin: "phase_deg (0, 0) = 0"
  by (simp add: phase_deg_def atan2_def)

lemma phase_deg_pos_real: "0 < x \<Longrightarrow> phase_deg (x, 0) = 0"
  by (simp add: phase_deg_def atan2_def)

lemma phase_deg_neg_imag: "y < 0 \<Longrightarrow> phase_deg (0, y) = - (pi / 2) * (180 / PI)"
  by (simp add: phase_deg_def atan2_def)

lemma phase_deg_pos_imag: "0 < y \<Longrightarrow> phase_deg (0, y) = pi / 2 * (180 / PI)"
  by (simp add: phase_deg_def atan2_def)

lemma half_turn_difference: "phase_deg (0, - 8) - phase_deg (0, 8) < - 90"
proof -
  have "PI < 2 * pi" using pi_ge_two by (simp add: PI_def)
  moreover have "0 < PI" by (simp add: PI_def)
  ultimately have "90 < 180 * pi / PI" by (simp add: pos_less_divide_eq)
  then have "- (180 * pi / PI) < - 90" by simp
  moreover have "phase_deg (0, - 8) - phase_deg (0, 8) = - (180 * pi / PI)"
    by (simp add: phase_deg_neg_imag phase_deg_pos_imag)
  ultimately show ?thesis by simp
qed

lemma phase_deg_neg_real: "x < 0 \<Longrightarrow> phase_deg (x, 0) = pi * (180 / PI)"
  by (simp add: phase_deg_def atan2_def)

lemma opposite_phase_difference: "phase_deg (8, 0) - phase_deg (- 8, 0) \<noteq> 0"
  by (simp add: phase_deg_pos_real phase_deg_neg_real PI_def)

lemma sec_at_zero_frequency_exact:
  "mult_double (d / 360) (div_double 1 0) = (if d = 0 then NaN else Infinite)"
  by (simp add: div_double_def)


section \<open>The scan of ChnlExpSync.c\<close>

text \<open>
  What one iteration does when the bin passes the test and when it does not.
\<close>

lemma ChnlExp_bin_accept:
  assumes "real_of_int (maxMagnitude s) \<le> magnitude (dsaOutput ! i)"
    and "real_of_int (maxMagnitude s) \<le> magnitude (mioOutput ! i)"
    and "magnitude (dsaOutput ! i) < 2147483648"
  shows "\<exists>s'. ChnlExp_bin binPrecision n dsaOutput mioOutput i s = Inr s'
           \<and> maxMagnitudeIndex s' = int i
           \<and> maxMagnitude s' = \<lfloor>magnitude (dsaOutput ! i)\<rfloor>"
  using assms double_to_int_nonneg [OF magnitude_nonneg assms(3)]
  by (simp add: ChnlExp_bin_def Let_def)

lemma ChnlExp_bin_reject:
  assumes "magnitude (dsaOutput ! i) < real_of_int (maxMagnitude s)
           \<or> magnitude (mioOutput ! i) < real_of_int (maxMagnitude s)"
  shows "\<exists>s'. ChnlExp_bin binPrecision n dsaOutput mioOutput i s = Inr s'
           \<and> maxMagnitudeIndex s' = maxMagnitudeIndex s
           \<and> maxMagnitude s' = maxMagnitude s"
  using assms by (auto simp: ChnlExp_bin_def Let_def)

lemma ChnlExp_bin_csv:
  "ChnlExp_bin binPrecision n dsaOutput mioOutput i s = Inr s' \<Longrightarrow>
   csv_lines s' = csv_lines s @
     [\<lparr>row_freq = real i * binPrecision,
       row_dsaMagnitude = magnitude (dsaOutput ! i),
       row_dsaAmplitude = magnitude (dsaOutput ! i) * 2 / real_of_int n,
       row_mioMagnitude = magnitude (mioOutput ! i),
       row_mioAmplitude = magnitude (mioOutput ! i) * 2 / real_of_int n\<rparr>]"
  by (auto simp: ChnlExp_bin_def Let_def split: if_splits option.splits)

lemma ChnlExp_bin_cases:
  assumes "ChnlExp_bin binPrecision n dsaOutput mioOutput i s = Inr s'"
  shows "(maxMagnitudeIndex s' = int i \<and> maxMagnitude s' = \<lfloor>magnitude (dsaOutput ! i)\<rfloor>
           \<and> real_of_int (maxMagnitude s) \<le> magnitude (dsaOutput ! i)
           \<and> real_of_int (maxMagnitude s) \<le> magnitude (mioOutput ! i))
       \<or> (maxMagnitudeIndex s' = maxMagnitudeIndex s \<and> maxMagnitude s' = maxMagnitude s
           \<and> (magnitude (dsaOutput ! i) < real_of_int (maxMagnitude s)
              \<or> magnitude (mioOutput ! i) < real_of_int (maxMagnitude s)))"
  using assms magnitude_nonneg [of "dsaOutput ! i"]
  by (auto simp: ChnlExp_bin_def Let_def double_to_int_def split: if_splits option.splits)

text \<open>
  The loop never faults when every channel-A magnitude fits an \<^verbatim>\<open>int\<close>.
\<close>

lemma ChnlExp_loop_total:
  assumes "\<forall>i<k. magnitude (dsaOutput ! i) < 2147483648"
  shows "\<exists>s. ChnlExp_loop binPrecision n dsaOutput mioOutput k = Inr s"
  using assms
proof (induction k)
  case 0
  then show ?case by simp
next
  case (Suc k)
  then obtain s where s: "ChnlExp_loop binPrecision n dsaOutput mioOutput k = Inr s"
    by auto
  from Suc.prems have b: "magnitude (dsaOutput ! k) < 2147483648" by simp
  show ?case
  proof (cases "real_of_int (maxMagnitude s) \<le> magnitude (dsaOutput ! k)
                \<and> real_of_int (maxMagnitude s) \<le> magnitude (mioOutput ! k)")
    case True
    with ChnlExp_bin_accept [of s dsaOutput k mioOutput binPrecision n] b s
    show ?thesis by auto
  next
    case False
    with ChnlExp_bin_reject [of dsaOutput k s mioOutput binPrecision n] s
    show ?thesis by auto
  qed
qed

text \<open>
  The CSV lines after \<open>k\<close> iterations.
\<close>

lemma ChnlExp_loop_csv:
  "ChnlExp_loop binPrecision n dsaOutput mioOutput k = Inr s \<Longrightarrow>
   length (csv_lines s) = k
   \<and> (\<forall>i<k. csv_lines s ! i =
        \<lparr>row_freq = real i * binPrecision,
         row_dsaMagnitude = magnitude (dsaOutput ! i),
         row_dsaAmplitude = magnitude (dsaOutput ! i) * 2 / real_of_int n,
         row_mioMagnitude = magnitude (mioOutput ! i),
         row_mioAmplitude = magnitude (mioOutput ! i) * 2 / real_of_int n\<rparr>)"
proof (induction k arbitrary: s)
  case 0
  then show ?case by auto
next
  case (Suc k)
  from Suc.prems obtain s0 where
    s0: "ChnlExp_loop binPrecision n dsaOutput mioOutput k = Inr s0"
    and step: "ChnlExp_bin binPrecision n dsaOutput mioOutput k s0 = Inr s"
    by (auto split: sum.splits)
  from Suc.IH [OF s0] ChnlExp_bin_csv [OF step]
  show ?case by (auto simp: nth_append less_Suc_eq)
qed

text \<open>
  After at least one iteration the threshold is the truncated channel-A
  magnitude of the selected bin, and the selected bin is one already visited.
\<close>

lemma ChnlExp_loop_threshold:
  "ChnlExp_loop binPrecision n dsaOutput mioOutput (Suc k) = Inr s \<Longrightarrow>
   0 \<le> maxMagnitudeIndex s \<and> maxMagnitudeIndex s \<le> int k
   \<and> maxMagnitude s = \<lfloor>magnitude (dsaOutput ! nat (maxMagnitudeIndex s))\<rfloor>"
proof (induction k arbitrary: s)
  case 0
  then have step: "ChnlExp_bin binPrecision n dsaOutput mioOutput 0
      \<lparr>maxMagnitudeIndex = 0, maxMagnitude = 0, csv_lines = []\<rparr> = Inr s"
    by simp
  from ChnlExp_bin_cases [OF step] magnitude_nonneg [of "dsaOutput ! 0"]
    magnitude_nonneg [of "mioOutput ! 0"]
  show ?case by auto
next
  case (Suc k)
  from Suc.prems obtain s0 where
    s0: "ChnlExp_loop binPrecision n dsaOutput mioOutput (Suc k) = Inr s0"
    and step: "ChnlExp_bin binPrecision n dsaOutput mioOutput (Suc k) s0 = Inr s"
    by (auto split: sum.splits)
  have "nat (1 + int k) = Suc k" by simp
  with Suc.IH [OF s0] ChnlExp_bin_cases [OF step]
  show ?case by auto
qed

lemma ChnlExp_loop_index_le:
  "ChnlExp_loop binPrecision n dsaOutput mioOutput k = Inr s \<Longrightarrow>
   0 \<le> maxMagnitudeIndex s \<and> maxMagnitudeIndex s \<le> int k"
  using ChnlExp_loop_threshold [of binPrecision n dsaOutput mioOutput "k - 1" s]
  by (cases k) auto

text \<open>
  On silence every bin passes the test, so the selection follows the scan.
\<close>

lemma ChnlExp_loop_silence:
  assumes "\<forall>i<k. magnitude (dsaOutput ! i) = 0 \<and> magnitude (mioOutput ! i) = 0"
  shows "\<exists>s. ChnlExp_loop binPrecision n dsaOutput mioOutput k = Inr s
           \<and> maxMagnitude s = 0 \<and> maxMagnitudeIndex s = int (k - 1)"
  using assms
proof (induction k)
  case 0
  then show ?case by simp
next
  case (Suc k)
  then obtain s where s: "ChnlExp_loop binPrecision n dsaOutput mioOutput k = Inr s"
    and thr: "maxMagnitude s = 0"
    by auto
  from Suc.prems have z: "magnitude (dsaOutput ! k) = 0" "magnitude (mioOutput ! k) = 0"
    by simp_all
  from ChnlExp_bin_accept [of s dsaOutput k mioOutput binPrecision n]
  obtain s' where "ChnlExp_bin binPrecision n dsaOutput mioOutput k s = Inr s'"
    "maxMagnitudeIndex s' = int k" "maxMagnitude s' = 0"
    by (auto simp: thr z)
  with s show ?case by simp
qed

text \<open>
  With channel A bounded by \<open>m\<close> the threshold never exceeds \<open>m\<close>; the selected
  index never decreases; bins that fail the test leave the selection where it is.
\<close>

lemma ChnlExp_loop_bounded:
  assumes "\<forall>i<k. magnitude (dsaOutput ! i) \<le> m" and "0 \<le> m" and "m < 2147483648"
  shows "\<exists>s. ChnlExp_loop binPrecision n dsaOutput mioOutput k = Inr s
           \<and> real_of_int (maxMagnitude s) \<le> m"
proof -
  from assms have "\<forall>i<k. magnitude (dsaOutput ! i) < 2147483648"
    by (meson le_less_trans)
  from ChnlExp_loop_total [OF this]
  obtain s where s: "ChnlExp_loop binPrecision n dsaOutput mioOutput k = Inr s" by blast
  have "real_of_int (maxMagnitude s) \<le> m"
  proof (cases k)
    case 0
    with s assms(2) show ?thesis by auto
  next
    case (Suc k')
    with ChnlExp_loop_threshold [of binPrecision n dsaOutput mioOutput k' s] s
    have idx: "0 \<le> maxMagnitudeIndex s" "maxMagnitudeIndex s \<le> int k'"
      and thr: "maxMagnitude s = \<lfloor>magnitude (dsaOutput ! nat (maxMagnitudeIndex s))\<rfloor>"
      by simp_all
    from idx Suc have "nat (maxMagnitudeIndex s) < k" by simp
    with assms(1) have "magnitude (dsaOutput ! nat (maxMagnitudeIndex s)) \<le> m" by blast
    moreover have "real_of_int (maxMagnitude s) \<le> magnitude (dsaOutput ! nat (maxMagnitudeIndex s))"
      by (simp add: thr)
    ultimately show ?thesis by linarith
  qed
  with s show ?thesis by blast
qed

lemma ChnlExp_loop_index_mono:
  assumes "ChnlExp_loop binPrecision n dsaOutput mioOutput (k + d) = Inr s'"
  shows "\<exists>s. ChnlExp_loop binPrecision n dsaOutput mioOutput k = Inr s
           \<and> maxMagnitudeIndex s \<le> maxMagnitudeIndex s'"
  using assms
proof (induction d arbitrary: s')
  case 0
  then show ?case by simp
next
  case (Suc d)
  from Suc.prems obtain s0 where
    s0: "ChnlExp_loop binPrecision n dsaOutput mioOutput (k + d) = Inr s0"
    and step: "ChnlExp_bin binPrecision n dsaOutput mioOutput (k + d) s0 = Inr s'"
    by (auto split: sum.splits)
  from Suc.IH [OF s0] obtain s where
    s: "ChnlExp_loop binPrecision n dsaOutput mioOutput k = Inr s"
    and le: "maxMagnitudeIndex s \<le> maxMagnitudeIndex s0"
    by blast
  from ChnlExp_loop_index_le [OF s0] have "maxMagnitudeIndex s0 \<le> int (k + d)" by simp
  with ChnlExp_bin_cases [OF step] le have "maxMagnitudeIndex s \<le> maxMagnitudeIndex s'"
    by auto
  with s show ?case by blast
qed

lemma ChnlExp_loop_stays:
  assumes "ChnlExp_loop binPrecision n dsaOutput mioOutput k = Inr s"
    and "\<forall>i. k \<le> i \<and> i < k + d \<longrightarrow>
           magnitude (dsaOutput ! i) < real_of_int (maxMagnitude s)
           \<or> magnitude (mioOutput ! i) < real_of_int (maxMagnitude s)"
  shows "\<exists>s'. ChnlExp_loop binPrecision n dsaOutput mioOutput (k + d) = Inr s'
           \<and> maxMagnitudeIndex s' = maxMagnitudeIndex s
           \<and> maxMagnitude s' = maxMagnitude s"
  using assms(2)
proof (induction d)
  case 0
  with assms(1) show ?case by simp
next
  case (Suc d)
  then obtain s0 where
    s0: "ChnlExp_loop binPrecision n dsaOutput mioOutput (k + d) = Inr s0"
    and same: "maxMagnitudeIndex s0 = maxMagnitudeIndex s" "maxMagnitude s0 = maxMagnitude s"
    by auto
  from Suc.prems have "magnitude (dsaOutput ! (k + d)) < real_of_int (maxMagnitude s0)
           \<or> magnitude (mioOutput ! (k + d)) < real_of_int (maxMagnitude s0)"
    by (simp add: same)
  from ChnlExp_bin_reject [OF this, of binPrecision n] s0 same
  show ?case by auto
qed

text \<open>
  \<^verbatim>\<open>DFT\<close> in terms of its loop.
\<close>

lemma ChnlExp_DFT_Inr:
  assumes "ChnlExp_DFT dsaOutput mioOutput sampleRate sampsPerChan = Inr (rows, m)"
  shows "0 < long_long_to_int sampsPerChan
       \<and> (\<exists>s. ChnlExp_loop (sampleRate / real_of_int sampsPerChan) (long_long_to_int sampsPerChan)
                dsaOutput mioOutput (nat (long_long_to_int sampsPerChan sdiv 2 + 1)) = Inr s
              \<and> rows = csv_lines s
              \<and> m = ChnlExp_estimate (sampleRate / real_of_int sampsPerChan) dsaOutput mioOutput
                      (maxMagnitudeIndex s))"
  using assms by (auto simp: ChnlExp_DFT_def Let_def split: if_splits sum.splits)

lemma ChnlExp_DFT_total:
  assumes "0 < long_long_to_int sampsPerChan"
    and "\<forall>i<nat (long_long_to_int sampsPerChan sdiv 2 + 1). magnitude (dsaOutput ! i) < 2147483648"
  shows "\<exists>rows m. ChnlExp_DFT dsaOutput mioOutput sampleRate sampsPerChan = Inr (rows, m)"
proof -
  from ChnlExp_loop_total [OF assms(2)]
  obtain s where "ChnlExp_loop (sampleRate / real_of_int sampsPerChan)
      (long_long_to_int sampsPerChan) dsaOutput mioOutput
      (nat (long_long_to_int sampsPerChan sdiv 2 + 1)) = Inr s"
    by blast
  with assms(1) show ?thesis by (simp add: ChnlExp_DFT_def Let_def)
qed

lemma ChnlExp_DFT_rows:
  assumes "ChnlExp_DFT dsaOutput mioOutput sampleRate sampsPerChan = Inr (rows, m)"
  shows "length rows = nat (long_long_to_int sampsPerChan sdiv 2 + 1)
       \<and> (\<forall>i<length rows. rows ! i =
            \<lparr>row_freq = real i * (sampleRate / real_of_int sampsPerChan),
             row_dsaMagnitude = magnitude (dsaOutput ! i),
             row_dsaAmplitude =
               magnitude (dsaOutput ! i) * 2 / real_of_int (long_long_to_int sampsPerChan),
             row_mioMagnitude = magnitude (mioOutput ! i),
             row_mioAmplitude =
               magnitude (mioOutput ! i) * 2 / real_of_int (long_long_to_int sampsPerChan)\<rparr>)"
proof -
  from ChnlExp_DFT_Inr [OF assms] obtain s where
    s: "ChnlExp_loop (sampleRate / real_of_int sampsPerChan) (long_long_to_int sampsPerChan)
          dsaOutput mioOutput (nat (long_long_to_int sampsPerChan sdiv 2 + 1)) = Inr s"
    and rows: "rows = csv_lines s"
    by blast
  from ChnlExp_loop_csv [OF s] show ?thesis by (simp add: rows)
qed

text \<open>What \<^verbatim>\<open>DFT\<close> reports is the estimate at a bin of the spectrum.\<close>

lemma ChnlExp_DFT_selected:
  assumes "ChnlExp_DFT dsaOutput mioOutput sampleRate sampsPerChan = Inr (rows, m)"
  shows "\<exists>k<nat (long_long_to_int sampsPerChan sdiv 2 + 1).
           m = ChnlExp_estimate (sampleRate / real_of_int sampsPerChan) dsaOutput mioOutput (int k)"
proof -
  from ChnlExp_DFT_Inr [OF assms] obtain s where
    pos: "0 < long_long_to_int sampsPerChan"
    and s: "ChnlExp_loop (sampleRate / real_of_int sampsPerChan) (long_long_to_int sampsPerChan)
          dsaOutput mioOutput (nat (long_long_to_int sampsPerChan sdiv 2 + 1)) = Inr s"
    and m: "m = ChnlExp_estimate (sampleRate / real_of_int sampsPerChan) dsaOutput mioOutput
              (maxMagnitudeIndex s)"
    by blast
  from pos obtain k' where nc: "nat (long_long_to_int sampsPerChan sdiv 2 + 1) = Suc k'"
    by (cases "nat (long_long_to_int sampsPerChan sdiv 2 + 1)")
       (simp_all add: signed_divide_int_def)
  from ChnlExp_loop_threshold [OF s [unfolded nc]]
  have "0 \<le> maxMagnitudeIndex s" "maxMagnitudeIndex s \<le> int k'" by simp_all
  then have "nat (maxMagnitudeIndex s) < nat (long_long_to_int sampsPerChan sdiv 2 + 1)"
    and "int (nat (maxMagnitudeIndex s)) = maxMagnitudeIndex s"
    by (simp_all add: nc)
  with m show ?thesis by metis
qed


section \<open>The loop of RefClkSync.c\<close>

text \<open>
  The CSV line and the outputs of one iteration, and of the loop.
\<close>

lemma RefClk_bin_csv:
  "snd (RefClk_bin sampleRate sampsPerChan n dsaOutput mioOutput i st) = snd st @
     [\<lparr>row_freq = real i * (sampleRate / real_of_int sampsPerChan),
       row_dsaMagnitude = magnitude (dsaOutput ! i),
       row_dsaAmplitude = magnitude (dsaOutput ! i) * 2 / real_of_int n,
       row_mioMagnitude = magnitude (mioOutput ! i),
       row_mioAmplitude = magnitude (mioOutput ! i) * 2 / real_of_int n\<rparr>]"
  by (simp add: RefClk_bin_def Let_def)

lemma RefClk_bin_outs:
  "fst (RefClk_bin sampleRate sampsPerChan n dsaOutput mioOutput i st) =
     (if 5 \<le> magnitude (dsaOutput ! i) \<and> 5 \<le> magnitude (mioOutput ! i)
      then \<lparr>measuredPhaseSkewDeg =
              NormalizePhaseAngleDifference (phase_deg (dsaOutput ! i) - phase_deg (mioOutput ! i)),
            measuredPhaseSkewSec =
              mult_double ((phase_deg (dsaOutput ! i) - phase_deg (mioOutput ! i)) / 360)
                (div_double 1 (real i * (sampleRate / real_of_int sampsPerChan))),
            measuredFreq = real i * (sampleRate / real_of_int sampsPerChan)\<rparr>
      else fst st)"
  by (simp add: RefClk_bin_def Let_def)

lemma RefClk_loop_csv:
  "length (snd (RefClk_loop sampleRate sampsPerChan n dsaOutput mioOutput k (outs, []))) = k
   \<and> (\<forall>i<k. snd (RefClk_loop sampleRate sampsPerChan n dsaOutput mioOutput k (outs, [])) ! i =
        \<lparr>row_freq = real i * (sampleRate / real_of_int sampsPerChan),
         row_dsaMagnitude = magnitude (dsaOutput ! i),
         row_dsaAmplitude = magnitude (dsaOutput ! i) * 2 / real_of_int n,
         row_mioMagnitude = magnitude (mioOutput ! i),
         row_mioAmplitude = magnitude (mioOutput ! i) * 2 / real_of_int n\<rparr>)"
proof (induction k)
  case 0
  then show ?case by simp
next
  case (Suc k)
  then show ?case
    by (auto simp: RefClk_bin_csv nth_append less_Suc_eq)
qed

text \<open>
  Bins that fail the gate leave the three outputs as they were, so the outputs
  are those of the last bin that passed.
\<close>

lemma RefClk_loop_frame:
  assumes "\<forall>i. k \<le> i \<and> i < k + d \<longrightarrow>
             \<not> (5 \<le> magnitude (dsaOutput ! i) \<and> 5 \<le> magnitude (mioOutput ! i))"
  shows "fst (RefClk_loop sampleRate sampsPerChan n dsaOutput mioOutput (k + d) st)
       = fst (RefClk_loop sampleRate sampsPerChan n dsaOutput mioOutput k st)"
  using assms
proof (induction d)
  case 0
  then show ?case by simp
next
  case (Suc d)
  from Suc.prems
  have ng: "\<not> (5 \<le> magnitude (dsaOutput ! (k + d)) \<and> 5 \<le> magnitude (mioOutput ! (k + d)))"
    by simp
  from Suc.prems
  have "\<forall>i. k \<le> i \<and> i < k + d \<longrightarrow>
             \<not> (5 \<le> magnitude (dsaOutput ! i) \<and> 5 \<le> magnitude (mioOutput ! i))"
    by simp
  from Suc.IH [OF this] ng show ?case
    by (auto simp: RefClk_bin_outs)
qed

lemma RefClk_loop_last:
  assumes "j < k"
    and "5 \<le> magnitude (dsaOutput ! j)" and "5 \<le> magnitude (mioOutput ! j)"
    and "\<forall>i. j < i \<and> i < k \<longrightarrow>
             \<not> (5 \<le> magnitude (dsaOutput ! i) \<and> 5 \<le> magnitude (mioOutput ! i))"
  shows "fst (RefClk_loop sampleRate sampsPerChan n dsaOutput mioOutput k st) =
      \<lparr>measuredPhaseSkewDeg =
          NormalizePhaseAngleDifference (phase_deg (dsaOutput ! j) - phase_deg (mioOutput ! j)),
        measuredPhaseSkewSec =
          mult_double ((phase_deg (dsaOutput ! j) - phase_deg (mioOutput ! j)) / 360)
            (div_double 1 (real j * (sampleRate / real_of_int sampsPerChan))),
        measuredFreq = real j * (sampleRate / real_of_int sampsPerChan)\<rparr>"
proof -
  from assms(1) obtain d where k: "k = Suc j + d"
    by (metis Suc_leI le_Suc_ex)
  from assms(4) have "\<forall>i. Suc j \<le> i \<and> i < Suc j + d \<longrightarrow>
             \<not> (5 \<le> magnitude (dsaOutput ! i) \<and> 5 \<le> magnitude (mioOutput ! i))"
    by (simp add: k Suc_le_eq)
  from RefClk_loop_frame [OF this]
  have "fst (RefClk_loop sampleRate sampsPerChan n dsaOutput mioOutput k st)
      = fst (RefClk_loop sampleRate sampsPerChan n dsaOutput mioOutput (Suc j) st)"
    by (simp add: k)
  with assms(2,3) show ?thesis by (simp add: RefClk_bin_outs)
qed

text \<open>
  The outputs after the loop are the ones it started with, or the triple of a
  bin that passed the gate.
\<close>

lemma RefClk_loop_outs_cases:
  "fst (RefClk_loop sampleRate sampsPerChan n dsaOutput mioOutput k st) = fst st
   \<or> (\<exists>j<k. 5 \<le> magnitude (dsaOutput ! j) \<and> 5 \<le> magnitude (mioOutput ! j)
          \<and> fst (RefClk_loop sampleRate sampsPerChan n dsaOutput mioOutput k st) =
              \<lparr>measuredPhaseSkewDeg =
                  NormalizePhaseAngleDifference
                    (phase_deg (dsaOutput ! j) - phase_deg (mioOutput ! j)),
                measuredPhaseSkewSec =
                  mult_double ((phase_deg (dsaOutput ! j) - phase_deg (mioOutput ! j)) / 360)
                    (div_double 1 (real j * (sampleRate / real_of_int sampsPerChan))),
                measuredFreq = real j * (sampleRate / real_of_int sampsPerChan)\<rparr>)"
proof (induction k)
  case 0
  then show ?case by simp
next
  case (Suc k)
  show ?case
  proof (cases "5 \<le> magnitude (dsaOutput ! k) \<and> 5 \<le> magnitude (mioOutput ! k)")
    case True
    then have "fst (RefClk_loop sampleRate sampsPerChan n dsaOutput mioOutput (Suc k) st) =
              \<lparr>measuredPhaseSkewDeg =
                  NormalizePhaseAngleDifference
                    (phase_deg (dsaOutput ! k) - phase_deg (mioOutput ! k)),
                measuredPhaseSkewSec =
                  mult_double ((phase_deg (dsaOutput ! k) - phase_deg (mioOutput ! k)) / 360)
                    (div_double 1 (real k * (sampleRate / real_of_int sampsPerChan))),
                measuredFreq = real k * (sampleRate / real_of_int sampsPerChan)\<rparr>"
      by (simp add: RefClk_bin_outs)
    with True show ?thesis by blast
  next
    case False
    then have "fst (RefClk_loop sampleRate sampsPerChan n dsaOutput mioOutput (Suc k) st)
        = fst (RefClk_loop sampleRate sampsPerChan n dsaOutput mioOutput k st)"
      by (auto simp: RefClk_bin_outs)
    with Suc.IH show ?thesis
      by (metis less_Suc_eq)
  qed
qed

lemma RefClk_DFT_rows:
  assumes "0 < long_long_to_int sampsPerChan"
  shows "\<exists>outs rows. RefClk_DFT dsaOutput mioOutput sampleRate sampsPerChan outs0 = Inr (outs, rows)
       \<and> outs = fst (RefClk_loop sampleRate sampsPerChan (long_long_to_int sampsPerChan)
                  dsaOutput mioOutput (nat (long_long_to_int sampsPerChan sdiv 2 + 1)) (outs0, []))
       \<and> length rows = nat (long_long_to_int sampsPerChan sdiv 2 + 1)
       \<and> (\<forall>i<length rows. rows ! i =
            \<lparr>row_freq = real i * (sampleRate / real_of_int sampsPerChan),
             row_dsaMagnitude = magnitude (dsaOutput ! i),
             row_dsaAmplitude =
               magnitude (dsaOutput ! i) * 2 / real_of_int (long_long_to_int sampsPerChan),
             row_mioMagnitude = magnitude (mioOutput ! i),
             row_mioAmplitude =
               magnitude (mioOutput ! i) * 2 / real_of_int (long_long_to_int sampsPerChan)\<rparr>)"
proof -
  let ?r = "RefClk_loop sampleRate sampsPerChan (long_long_to_int sampsPerChan)
              dsaOutput mioOutput (nat (long_long_to_int sampsPerChan sdiv 2 + 1)) (outs0, [])"
  have eq: "RefClk_DFT dsaOutput mioOutput sampleRate sampsPerChan outs0 = Inr (fst ?r, snd ?r)"
    using assms by (simp add: RefClk_DFT_def Let_def)
  note csv = RefClk_loop_csv [of sampleRate sampsPerChan "long_long_to_int sampsPerChan"
      dsaOutput mioOutput "nat (long_long_to_int sampsPerChan sdiv 2 + 1)" outs0]
  show ?thesis
  proof (intro exI conjI)
    show "RefClk_DFT dsaOutput mioOutput sampleRate sampsPerChan outs0 = Inr (fst ?r, snd ?r)"
      by (fact eq)
    show "fst ?r = fst ?r" by (rule refl)
    show "length (snd ?r) = nat (long_long_to_int sampsPerChan sdiv 2 + 1)"
      using csv by simp
    then show "\<forall>i<length (snd ?r). snd ?r ! i =
            \<lparr>row_freq = real i * (sampleRate / real_of_int sampsPerChan),
             row_dsaMagnitude = magnitude (dsaOutput ! i),
             row_dsaAmplitude =
               magnitude (dsaOutput ! i) * 2 / real_of_int (long_long_to_int sampsPerChan),
             row_mioMagnitude = magnitude (mioOutput ! i),
             row_mioAmplitude =
               magnitude (mioOutput ! i) * 2 / real_of_int (long_long_to_int sampsPerChan)\<rparr>"
      using csv by simp
  qed
qed


section \<open>The transform stage\<close>

text \<open>\<^verbatim>\<open>StoreData\<close> copies the first \<^verbatim>\<open>arraySize\<close> cells and leaves the rest.\<close>

lemma StoreData_loop_copy:
  "k \<le> length d \<Longrightarrow> k \<le> length out \<Longrightarrow>
   StoreData_loop d k out = take k d @ drop k out"
proof (induction k)
  case 0
  then show ?case by simp
next
  case (Suc k)
  then have IH: "StoreData_loop d k out = take k d @ drop k out" by simp
  from Suc.prems have k: "k < length d" "k < length out" by simp_all
  have "(take k d @ drop k out)[k := d ! k] = take k d @ (drop k out)[0 := d ! k]"
    using k by (simp add: list_update_append)
  also have "(drop k out)[0 := d ! k] = d ! k # drop (Suc k) out"
    using k by (simp add: Cons_nth_drop_Suc [symmetric])
  also have "take k d @ d ! k # drop (Suc k) out = take (Suc k) d @ drop (Suc k) out"
    using k by (simp add: take_Suc_conv_app_nth)
  finally show ?case by (simp add: IH)
qed

lemma StoreData_copy:
  "0 \<le> n \<Longrightarrow> nat n \<le> length d \<Longrightarrow>
   StoreData n d (replicate (nat n) 0) = Inr (take (nat n) d)"
  by (simp add: StoreData_def StoreData_loop_copy)

text \<open>
  With chunks of at least \<open>n\<close> samples the transform stage produces two spectra
  of \<open>nc = n/2 + 1\<close> bins each, the transforms of the first \<open>n\<close> samples.
\<close>

lemma DFT_transform_Inr:
  assumes "0 < long_long_to_int sampsPerChan"
    and "nat (long_long_to_int sampsPerChan) \<le> length dsaData"
    and "nat (long_long_to_int sampsPerChan) \<le> length mioData"
  shows "DFT_transform r2c dsaData mioData sampsPerChan =
     Inr (map (r2c (nat (long_long_to_int sampsPerChan))
                 (take (nat (long_long_to_int sampsPerChan)) dsaData))
            [0..<nat (long_long_to_int sampsPerChan sdiv 2 + 1)],
          map (r2c (nat (long_long_to_int sampsPerChan))
                 (take (nat (long_long_to_int sampsPerChan)) mioData))
            [0..<nat (long_long_to_int sampsPerChan sdiv 2 + 1)])"
  using assms by (simp add: DFT_transform_def Let_def StoreData_copy)

text \<open>The forward transform of silence and of an impulse.\<close>

lemma forward_dft_silence: "forward_dft n (replicate n 0) k = (0, 0)"
  by (simp add: forward_dft_def)

lemma forward_dft_impulse: "forward_dft (Suc n) (a # replicate n 0) k = (a, 0)"
  by (simp add: forward_dft_def sum.lessThan_Suc_shift del: sum.lessThan_Suc)


section \<open>Runs on concrete spectra\<close>

text \<open>
  Four samples per channel at 10 kHz (three bins, 2500 Hz apart). A spectrum
  whose DC bin dominates:
\<close>

lemma ChnlExp_run_dc:
  "ChnlExp_DFT [(8, 0), (1, 0), (0, 0)] [(8, 0), (1, 0), (0, 0)] 10000 4 =
     Inr ([\<lparr>row_freq = 0, row_dsaMagnitude = 8, row_dsaAmplitude = 4,
             row_mioMagnitude = 8, row_mioAmplitude = 4\<rparr>,
           \<lparr>row_freq = 2500, row_dsaMagnitude = 1, row_dsaAmplitude = 1 / 2,
             row_mioMagnitude = 1, row_mioAmplitude = 1 / 2\<rparr>,
           \<lparr>row_freq = 5000, row_dsaMagnitude = 0, row_dsaAmplitude = 0,
             row_mioMagnitude = 0, row_mioAmplitude = 0\<rparr>],
          \<lparr>measuredPhaseSkewDeg = 0, measuredPhaseSkewSec = NaN, measuredFreq = 0\<rparr>)"
proof -
  have loop: "ChnlExp_loop 2500 4 [(8, 0), (1, 0), (0, 0)] [(8, 0), (1, 0), (0, 0)] 3 =
     Inr \<lparr>maxMagnitudeIndex = 0, maxMagnitude = 8,
          csv_lines =
            [\<lparr>row_freq = 0, row_dsaMagnitude = 8, row_dsaAmplitude = 4,
               row_mioMagnitude = 8, row_mioAmplitude = 4\<rparr>,
             \<lparr>row_freq = 2500, row_dsaMagnitude = 1, row_dsaAmplitude = 1 / 2,
               row_mioMagnitude = 1, row_mioAmplitude = 1 / 2\<rparr>,
             \<lparr>row_freq = 5000, row_dsaMagnitude = 0, row_dsaAmplitude = 0,
               row_mioMagnitude = 0, row_mioAmplitude = 0\<rparr>]\<rparr>"
    by (simp add: numeral_3_eq_3 ChnlExp_bin_def Let_def magnitude_real double_to_int_def
        INT_MAX_def)
  show ?thesis
    by (simp add: ChnlExp_DFT_def sizes_4 loop ChnlExp_estimate_def phase_deg_pos_real
        NormalizePhaseAngleDifference_def div_double_def)
qed

lemma RefClk_run_dc:
  "RefClk_DFT [(8, 0), (1, 0), (0, 0)] [(8, 0), (1, 0), (0, 0)] 10000 4
       \<lparr>measuredPhaseSkewDeg = 0, measuredPhaseSkewSec = Finite 0, measuredFreq = 0\<rparr> =
     Inr (\<lparr>measuredPhaseSkewDeg = 0, measuredPhaseSkewSec = NaN, measuredFreq = 0\<rparr>,
          [\<lparr>row_freq = 0, row_dsaMagnitude = 8, row_dsaAmplitude = 4,
             row_mioMagnitude = 8, row_mioAmplitude = 4\<rparr>,
           \<lparr>row_freq = 2500, row_dsaMagnitude = 1, row_dsaAmplitude = 1 / 2,
             row_mioMagnitude = 1, row_mioAmplitude = 1 / 2\<rparr>,
           \<lparr>row_freq = 5000, row_dsaMagnitude = 0, row_dsaAmplitude = 0,
             row_mioMagnitude = 0, row_mioAmplitude = 0\<rparr>])"
  by (simp add: RefClk_DFT_def sizes_4 numeral_3_eq_3 RefClk_bin_def Let_def magnitude_real
      phase_deg_pos_real phase_deg_origin NormalizePhaseAngleDifference_def div_double_def)

text \<open>
  The same spectrum with the DC bin of the second channel negated (a phase
  difference of a half turn at DC):
\<close>

lemma ChnlExp_run_dc_opposite:
  "ChnlExp_DFT [(8, 0), (1, 0), (0, 0)] [(- 8, 0), (1, 0), (0, 0)] 10000 4 =
     Inr ([\<lparr>row_freq = 0, row_dsaMagnitude = 8, row_dsaAmplitude = 4,
             row_mioMagnitude = 8, row_mioAmplitude = 4\<rparr>,
           \<lparr>row_freq = 2500, row_dsaMagnitude = 1, row_dsaAmplitude = 1 / 2,
             row_mioMagnitude = 1, row_mioAmplitude = 1 / 2\<rparr>,
           \<lparr>row_freq = 5000, row_dsaMagnitude = 0, row_dsaAmplitude = 0,
             row_mioMagnitude = 0, row_mioAmplitude = 0\<rparr>],
          \<lparr>measuredPhaseSkewDeg =
             NormalizePhaseAngleDifference (phase_deg (8, 0) - phase_deg (- 8, 0)),
           measuredPhaseSkewSec = Infinite, measuredFreq = 0\<rparr>)"
proof -
  have loop: "ChnlExp_loop 2500 4 [(8, 0), (1, 0), (0, 0)] [(- 8, 0), (1, 0), (0, 0)] 3 =
     Inr \<lparr>maxMagnitudeIndex = 0, maxMagnitude = 8,
          csv_lines =
            [\<lparr>row_freq = 0, row_dsaMagnitude = 8, row_dsaAmplitude = 4,
             row_mioMagnitude = 8, row_mioAmplitude = 4\<rparr>,
           \<lparr>row_freq = 2500, row_dsaMagnitude = 1, row_dsaAmplitude = 1 / 2,
             row_mioMagnitude = 1, row_mioAmplitude = 1 / 2\<rparr>,
           \<lparr>row_freq = 5000, row_dsaMagnitude = 0, row_dsaAmplitude = 0,
             row_mioMagnitude = 0, row_mioAmplitude = 0\<rparr>]\<rparr>"
    by (simp add: numeral_3_eq_3 ChnlExp_bin_def Let_def magnitude_real double_to_int_def
        INT_MAX_def)
  show ?thesis
    using opposite_phase_difference
    by (simp add: ChnlExp_DFT_def sizes_4 loop ChnlExp_estimate_def Let_def div_double_def)
qed

lemma RefClk_run_dc_opposite:
  "RefClk_DFT [(8, 0), (1, 0), (0, 0)] [(- 8, 0), (1, 0), (0, 0)] 10000 4
       \<lparr>measuredPhaseSkewDeg = 0, measuredPhaseSkewSec = Finite 0, measuredFreq = 0\<rparr> =
     Inr (\<lparr>measuredPhaseSkewDeg =
             NormalizePhaseAngleDifference (phase_deg (8, 0) - phase_deg (- 8, 0)),
           measuredPhaseSkewSec = Infinite, measuredFreq = 0\<rparr>,
          [\<lparr>row_freq = 0, row_dsaMagnitude = 8, row_dsaAmplitude = 4,
             row_mioMagnitude = 8, row_mioAmplitude = 4\<rparr>,
           \<lparr>row_freq = 2500, row_dsaMagnitude = 1, row_dsaAmplitude = 1 / 2,
             row_mioMagnitude = 1, row_mioAmplitude = 1 / 2\<rparr>,
           \<lparr>row_freq = 5000, row_dsaMagnitude = 0, row_dsaAmplitude = 0,
             row_mioMagnitude = 0, row_mioAmplitude = 0\<rparr>])"
  using opposite_phase_difference
  by (simp add: RefClk_DFT_def sizes_4 numeral_3_eq_3 RefClk_bin_def Let_def magnitude_real
      div_double_def)

text \<open>
  A spectrum with one peak at bin 1, the channels a half turn apart:
\<close>

lemma ChnlExp_run_half_turn:
  "ChnlExp_DFT [(0, 0), (0, - 8), (0, 0)] [(0, 0), (0, 8), (0, 0)] 10000 4 =
     Inr ([\<lparr>row_freq = 0, row_dsaMagnitude = 0, row_dsaAmplitude = 0,
             row_mioMagnitude = 0, row_mioAmplitude = 0\<rparr>,
           \<lparr>row_freq = 2500, row_dsaMagnitude = 8, row_dsaAmplitude = 4,
             row_mioMagnitude = 8, row_mioAmplitude = 4\<rparr>,
           \<lparr>row_freq = 5000, row_dsaMagnitude = 0, row_dsaAmplitude = 0,
             row_mioMagnitude = 0, row_mioAmplitude = 0\<rparr>],
          \<lparr>measuredPhaseSkewDeg =
             NormalizePhaseAngleDifference (phase_deg (0, - 8) - phase_deg (0, 8)),
           measuredPhaseSkewSec =
             Finite ((phase_deg (0, - 8) - phase_deg (0, 8)) / 360 * (1 / 2500)),
           measuredFreq = 2500\<rparr>)"
proof -
  have loop: "ChnlExp_loop 2500 4 [(0, 0), (0, - 8), (0, 0)] [(0, 0), (0, 8), (0, 0)] 3 =
     Inr \<lparr>maxMagnitudeIndex = 1, maxMagnitude = 8,
          csv_lines =
            [\<lparr>row_freq = 0, row_dsaMagnitude = 0, row_dsaAmplitude = 0,
               row_mioMagnitude = 0, row_mioAmplitude = 0\<rparr>,
             \<lparr>row_freq = 2500, row_dsaMagnitude = 8, row_dsaAmplitude = 4,
               row_mioMagnitude = 8, row_mioAmplitude = 4\<rparr>,
             \<lparr>row_freq = 5000, row_dsaMagnitude = 0, row_dsaAmplitude = 0,
               row_mioMagnitude = 0, row_mioAmplitude = 0\<rparr>]\<rparr>"
    by (simp add: numeral_3_eq_3 ChnlExp_bin_def Let_def magnitude_imag double_to_int_def
        INT_MAX_def)
  show ?thesis
    by (simp add: ChnlExp_DFT_def sizes_4 loop ChnlExp_estimate_def Let_def div_double_def)
qed

lemma RefClk_run_half_turn:
  "RefClk_DFT [(0, 0), (0, - 8), (0, 0)] [(0, 0), (0, 8), (0, 0)] 10000 4
       \<lparr>measuredPhaseSkewDeg = 0, measuredPhaseSkewSec = Finite 0, measuredFreq = 0\<rparr> =
     Inr (\<lparr>measuredPhaseSkewDeg =
             NormalizePhaseAngleDifference (phase_deg (0, - 8) - phase_deg (0, 8)),
           measuredPhaseSkewSec =
             Finite ((phase_deg (0, - 8) - phase_deg (0, 8)) / 360 * (1 / 2500)),
           measuredFreq = 2500\<rparr>,
          [\<lparr>row_freq = 0, row_dsaMagnitude = 0, row_dsaAmplitude = 0,
             row_mioMagnitude = 0, row_mioAmplitude = 0\<rparr>,
           \<lparr>row_freq = 2500, row_dsaMagnitude = 8, row_dsaAmplitude = 4,
             row_mioMagnitude = 8, row_mioAmplitude = 4\<rparr>,
           \<lparr>row_freq = 5000, row_dsaMagnitude = 0, row_dsaAmplitude = 0,
             row_mioMagnitude = 0, row_mioAmplitude = 0\<rparr>])"
  by (simp add: RefClk_DFT_def sizes_4 numeral_3_eq_3 RefClk_bin_def Let_def magnitude_imag
      div_double_def)

text \<open>
  Two bins above the gate of RefClkSync.c:
\<close>

lemma RefClk_run_two_peaks:
  "RefClk_DFT [(8, 0), (1, 0), (6, 0)] [(8, 0), (1, 0), (6, 0)] 10000 4
       \<lparr>measuredPhaseSkewDeg = 0, measuredPhaseSkewSec = Finite 0, measuredFreq = 0\<rparr> =
     Inr (\<lparr>measuredPhaseSkewDeg = 0, measuredPhaseSkewSec = Finite 0, measuredFreq = 5000\<rparr>,
          [\<lparr>row_freq = 0, row_dsaMagnitude = 8, row_dsaAmplitude = 4,
             row_mioMagnitude = 8, row_mioAmplitude = 4\<rparr>,
           \<lparr>row_freq = 2500, row_dsaMagnitude = 1, row_dsaAmplitude = 1 / 2,
             row_mioMagnitude = 1, row_mioAmplitude = 1 / 2\<rparr>,
           \<lparr>row_freq = 5000, row_dsaMagnitude = 6, row_dsaAmplitude = 3,
             row_mioMagnitude = 6, row_mioAmplitude = 3\<rparr>])"
  by (simp add: RefClk_DFT_def sizes_4 numeral_3_eq_3 RefClk_bin_def Let_def magnitude_real
      phase_deg_pos_real NormalizePhaseAngleDifference_def div_double_def)

text \<open>
  A \<^verbatim>\<open>sampsPerChan\<close> that does not fit an \<^verbatim>\<open>int\<close>: \<open>2^32 + 2\<close> converts to 2.
\<close>

lemma ChnlExp_run_wrapped:
  "ChnlExp_DFT [(0, 0), (0, 0)] [(0, 0), (0, 0)] 10000 4294967298 =
     Inr ([\<lparr>row_freq = 0, row_dsaMagnitude = 0, row_dsaAmplitude = 0,
             row_mioMagnitude = 0, row_mioAmplitude = 0\<rparr>,
           \<lparr>row_freq = 10000 / 4294967298, row_dsaMagnitude = 0, row_dsaAmplitude = 0,
             row_mioMagnitude = 0, row_mioAmplitude = 0\<rparr>],
          \<lparr>measuredPhaseSkewDeg = 0, measuredPhaseSkewSec = Finite 0,
           measuredFreq = 10000 / 4294967298\<rparr>)"
proof -
  have loop: "ChnlExp_loop (10000 / 4294967298) 2 [(0, 0), (0, 0)] [(0, 0), (0, 0)] 2 =
     Inr \<lparr>maxMagnitudeIndex = 1, maxMagnitude = 0,
          csv_lines =
            [\<lparr>row_freq = 0, row_dsaMagnitude = 0, row_dsaAmplitude = 0,
               row_mioMagnitude = 0, row_mioAmplitude = 0\<rparr>,
             \<lparr>row_freq = 10000 / 4294967298, row_dsaMagnitude = 0, row_dsaAmplitude = 0,
               row_mioMagnitude = 0, row_mioAmplitude = 0\<rparr>]\<rparr>"
    by (simp add: numeral_2_eq_2 ChnlExp_bin_def Let_def magnitude_real double_to_int_def
        INT_MAX_def)
  show ?thesis
    using loop
    by (simp add: ChnlExp_DFT_def sizes_wrapped ChnlExp_estimate_def Let_def phase_deg_origin
        NormalizePhaseAngleDifference_def div_double_def)
qed


section \<open>\<^verbatim>\<open>DFT\<close> from the chunks\<close>

text \<open>
  For a chunk length that fits an \<^verbatim>\<open>int\<close> the transform stage produces the
  transforms of the two chunks, \<open>N/2 + 1\<close> bins each.
\<close>

lemma DFT_transform_chunk:
  assumes "0 < N" and "N \<le> INT_MAX" and "length dsaData = nat N" and "length mioData = nat N"
  shows "DFT_transform r2c dsaData mioData N =
     Inr (map (r2c (nat N) dsaData) [0..<nat (N div 2 + 1)],
          map (r2c (nat N) mioData) [0..<nat (N div 2 + 1)])"
proof -
  from assms(1,2) have n: "long_long_to_int N = N"
    by (intro long_long_to_int_id) simp_all
  from assms(1) have nc: "N sdiv 2 + 1 = N div 2 + 1" by (rule nc_pos)
  from DFT_transform_Inr [of N dsaData mioData r2c] assms(1,3,4)
  show ?thesis by (simp add: n nc)
qed

text \<open>The report of both files in terms of the spectra the transform stage produced.\<close>

lemma RefClk_chunks_rows:
  assumes "0 < N" and "N \<le> INT_MAX"
    and "DFT_transform r2c dsaData mioData N = Inr (dsaOutput, mioOutput)"
  shows "\<exists>outs rows.
           RefClk_DFT_of_chunks r2c dsaData mioData sampleRate N outs0 = Inr (outs, rows)
         \<and> length rows = nat (N div 2 + 1)
         \<and> (\<forall>i<nat (N div 2 + 1). rows ! i =
              \<lparr>row_freq = real i * (sampleRate / real_of_int N),
               row_dsaMagnitude = magnitude (dsaOutput ! i),
               row_dsaAmplitude = magnitude (dsaOutput ! i) * 2 / real_of_int N,
               row_mioMagnitude = magnitude (mioOutput ! i),
               row_mioAmplitude = magnitude (mioOutput ! i) * 2 / real_of_int N\<rparr>)"
proof -
  from assms(1,2) have n: "long_long_to_int N = N"
    by (intro long_long_to_int_id) simp_all
  from assms(1) have nc: "N sdiv 2 + 1 = N div 2 + 1" by (rule nc_pos)
  from assms(1) have pos: "0 < long_long_to_int N" by (simp add: n)
  from RefClk_DFT_rows [OF pos, of dsaOutput mioOutput sampleRate outs0]
  show ?thesis
    by (auto simp: RefClk_DFT_of_chunks_def assms(3) n nc)
qed

lemma ChnlExp_chunks_rows:
  assumes "0 < N" and "N \<le> INT_MAX"
    and "DFT_transform r2c dsaData mioData N = Inr (dsaOutput, mioOutput)"
    and "ChnlExp_DFT_of_chunks r2c dsaData mioData sampleRate N = Inr (rows, m)"
  shows "length rows = nat (N div 2 + 1)
       \<and> (\<forall>i<nat (N div 2 + 1). rows ! i =
              \<lparr>row_freq = real i * (sampleRate / real_of_int N),
               row_dsaMagnitude = magnitude (dsaOutput ! i),
               row_dsaAmplitude = magnitude (dsaOutput ! i) * 2 / real_of_int N,
               row_mioMagnitude = magnitude (mioOutput ! i),
               row_mioAmplitude = magnitude (mioOutput ! i) * 2 / real_of_int N\<rparr>)"
proof -
  from assms(1,2) have n: "long_long_to_int N = N"
    by (intro long_long_to_int_id) simp_all
  from assms(1) have nc: "N sdiv 2 + 1 = N div 2 + 1" by (rule nc_pos)
  from assms(3,4) have "ChnlExp_DFT dsaOutput mioOutput sampleRate N = Inr (rows, m)"
    by (simp add: ChnlExp_DFT_of_chunks_def)
  from ChnlExp_DFT_rows [OF this] show ?thesis
    by (simp add: n nc)
qed

lemma ChnlExp_chunks_total:
  assumes "0 < N" and "N \<le> INT_MAX"
    and "DFT_transform r2c dsaData mioData N = Inr (dsaOutput, mioOutput)"
    and "\<forall>i<nat (N div 2 + 1). magnitude (dsaOutput ! i) < 2147483648"
  shows "\<exists>rows m. ChnlExp_DFT_of_chunks r2c dsaData mioData sampleRate N = Inr (rows, m)"
proof -
  from assms(1,2) have n: "long_long_to_int N = N"
    by (intro long_long_to_int_id) simp_all
  from assms(1) have nc: "N sdiv 2 + 1 = N div 2 + 1" by (rule nc_pos)
  from assms(1) have pos: "0 < long_long_to_int N" by (simp add: n)
  from ChnlExp_DFT_total [OF pos, of dsaOutput mioOutput sampleRate] assms(4)
  show ?thesis
    by (simp add: ChnlExp_DFT_of_chunks_def assms(3) n nc)
qed

text \<open>
  Four samples per channel at 10 kHz, an impulse of 8 V on both channels: every
  bin of both spectra is \<open>(8, 0)\<close>.
\<close>

lemma transform_run_impulse:
  "DFT_transform forward_dft [8, 0, 0, 0] [8, 0, 0, 0] 4 =
     Inr ([(8, 0), (8, 0), (8, 0)], [(8, 0), (8, 0), (8, 0)])"
proof -
  have r: "replicate 3 (0::real) = [0, 0, 0]" by (simp add: numeral_3_eq_3)
  have bin: "forward_dft 4 [8, 0, 0, 0] k = (8, 0)" for k
    using forward_dft_impulse [of 3 8 k] by (simp add: r)
  have "[0..<3] = [0, 1, 2]" by (simp add: numeral_3_eq_3 upt_rec)
  with DFT_transform_Inr [of 4 "[8, 0, 0, 0]" "[8, 0, 0, 0]" forward_dft]
  show ?thesis by (simp add: sizes_4 bin)
qed

lemma ChnlExp_run_impulse:
  "ChnlExp_DFT [(8, 0), (8, 0), (8, 0)] [(8, 0), (8, 0), (8, 0)] 10000 4 =
     Inr ([\<lparr>row_freq = 0, row_dsaMagnitude = 8, row_dsaAmplitude = 4,
             row_mioMagnitude = 8, row_mioAmplitude = 4\<rparr>,
           \<lparr>row_freq = 2500, row_dsaMagnitude = 8, row_dsaAmplitude = 4,
             row_mioMagnitude = 8, row_mioAmplitude = 4\<rparr>,
           \<lparr>row_freq = 5000, row_dsaMagnitude = 8, row_dsaAmplitude = 4,
             row_mioMagnitude = 8, row_mioAmplitude = 4\<rparr>],
          \<lparr>measuredPhaseSkewDeg = 0, measuredPhaseSkewSec = Finite 0, measuredFreq = 5000\<rparr>)"
proof -
  have loop: "ChnlExp_loop 2500 4 [(8, 0), (8, 0), (8, 0)] [(8, 0), (8, 0), (8, 0)] 3 =
     Inr \<lparr>maxMagnitudeIndex = 2, maxMagnitude = 8,
          csv_lines =
            [\<lparr>row_freq = 0, row_dsaMagnitude = 8, row_dsaAmplitude = 4,
             row_mioMagnitude = 8, row_mioAmplitude = 4\<rparr>,
           \<lparr>row_freq = 2500, row_dsaMagnitude = 8, row_dsaAmplitude = 4,
             row_mioMagnitude = 8, row_mioAmplitude = 4\<rparr>,
           \<lparr>row_freq = 5000, row_dsaMagnitude = 8, row_dsaAmplitude = 4,
             row_mioMagnitude = 8, row_mioAmplitude = 4\<rparr>]\<rparr>"
    by (simp add: numeral_3_eq_3 numeral_2_eq_2 ChnlExp_bin_def Let_def magnitude_real
        double_to_int_def INT_MAX_def)
  show ?thesis
    by (simp add: ChnlExp_DFT_def sizes_4 loop ChnlExp_estimate_def phase_deg_pos_real
        NormalizePhaseAngleDifference_def div_double_def)
qed

lemma RefClk_run_impulse:
  "RefClk_DFT [(8, 0), (8, 0), (8, 0)] [(8, 0), (8, 0), (8, 0)] 10000 4
       \<lparr>measuredPhaseSkewDeg = 0, measuredPhaseSkewSec = Finite 0, measuredFreq = 0\<rparr> =
     Inr (\<lparr>measuredPhaseSkewDeg = 0, measuredPhaseSkewSec = Finite 0, measuredFreq = 5000\<rparr>,
          [\<lparr>row_freq = 0, row_dsaMagnitude = 8, row_dsaAmplitude = 4,
             row_mioMagnitude = 8, row_mioAmplitude = 4\<rparr>,
           \<lparr>row_freq = 2500, row_dsaMagnitude = 8, row_dsaAmplitude = 4,
             row_mioMagnitude = 8, row_mioAmplitude = 4\<rparr>,
           \<lparr>row_freq = 5000, row_dsaMagnitude = 8, row_dsaAmplitude = 4,
             row_mioMagnitude = 8, row_mioAmplitude = 4\<rparr>])"
  by (simp add: RefClk_DFT_def sizes_4 numeral_3_eq_3 RefClk_bin_def Let_def magnitude_real
      phase_deg_pos_real NormalizePhaseAngleDifference_def div_double_def)

text \<open>
  \<open>2^32 + 2\<close> samples per channel, converted to \<open>n = 2\<close>: the transform stage
  reads the first two samples of each chunk. A silent chunk, and a chunk with
  an impulse of 8 V.
\<close>

lemma transform_run_wrapped_silence:
  "DFT_transform forward_dft (replicate 4294967298 0) (replicate 4294967298 0) 4294967298 =
     Inr ([(0, 0), (0, 0)], [(0, 0), (0, 0)])"
proof -
  have "take 2 (replicate 4294967298 (0::real)) = replicate 2 0" by simp
  moreover have "[0..<2] = [0, 1]" by (simp add: numeral_2_eq_2)
  moreover note DFT_transform_Inr [of 4294967298 "(replicate 4294967298 0)" "(replicate 4294967298 0)" forward_dft]
  ultimately show ?thesis by (simp add: sizes_wrapped forward_dft_silence)
qed

lemma transform_run_wrapped_impulse:
  "DFT_transform forward_dft (8 # replicate 4294967297 0) (8 # replicate 4294967297 0) 4294967298 =
     Inr ([(8, 0), (8, 0)], [(8, 0), (8, 0)])"
proof -
  have tk: "take 2 (8 # replicate 4294967297 (0::real)) = 8 # replicate 1 0"
    by (simp add: numeral_2_eq_2)
  have bin: "forward_dft 2 [8, 0] k = (8, 0)" for k
    using forward_dft_impulse [of 1 8 k] by (simp add: numeral_2_eq_2)
  have "[0..<2] = [0, 1]" by (simp add: numeral_2_eq_2)
  with DFT_transform_Inr [of 4294967298 "(8 # replicate 4294967297 0)" "(8 # replicate 4294967297 0)" forward_dft]
  show ?thesis by (simp add: sizes_wrapped tk bin)
qed

lemma ChnlExp_run_wrapped_impulse:
  "ChnlExp_DFT [(8, 0), (8, 0)] [(8, 0), (8, 0)] 10000 4294967298 =
     Inr ([\<lparr>row_freq = 0, row_dsaMagnitude = 8, row_dsaAmplitude = 8,
             row_mioMagnitude = 8, row_mioAmplitude = 8\<rparr>,
           \<lparr>row_freq = 10000 / 4294967298, row_dsaMagnitude = 8, row_dsaAmplitude = 8,
             row_mioMagnitude = 8, row_mioAmplitude = 8\<rparr>],
          \<lparr>measuredPhaseSkewDeg = 0, measuredPhaseSkewSec = Finite 0,
           measuredFreq = 10000 / 4294967298\<rparr>)"
proof -
  have loop: "ChnlExp_loop (10000 / 4294967298) 2 [(8, 0), (8, 0)] [(8, 0), (8, 0)] 2 =
     Inr \<lparr>maxMagnitudeIndex = 1, maxMagnitude = 8,
          csv_lines =
            [\<lparr>row_freq = 0, row_dsaMagnitude = 8, row_dsaAmplitude = 8,
             row_mioMagnitude = 8, row_mioAmplitude = 8\<rparr>,
           \<lparr>row_freq = 10000 / 4294967298, row_dsaMagnitude = 8, row_dsaAmplitude = 8,
             row_mioMagnitude = 8, row_mioAmplitude = 8\<rparr>]\<rparr>"
    by (simp add: numeral_2_eq_2 ChnlExp_bin_def Let_def magnitude_real double_to_int_def
        INT_MAX_def)
  show ?thesis
    using loop
    by (simp add: ChnlExp_DFT_def sizes_wrapped ChnlExp_estimate_def Let_def phase_deg_pos_real
        NormalizePhaseAngleDifference_def div_double_def)
qed

lemma RefClk_run_wrapped_impulse:
  "RefClk_DFT [(8, 0), (8, 0)] [(8, 0), (8, 0)] 10000 4294967298
       \<lparr>measuredPhaseSkewDeg = 0, measuredPhaseSkewSec = Finite 0, measuredFreq = 0\<rparr> =
     Inr (\<lparr>measuredPhaseSkewDeg = 0, measuredPhaseSkewSec = Finite 0,
           measuredFreq = 10000 / 4294967298\<rparr>,
          [\<lparr>row_freq = 0, row_dsaMagnitude = 8, row_dsaAmplitude = 8,
             row_mioMagnitude = 8, row_mioAmplitude = 8\<rparr>,
           \<lparr>row_freq = 10000 / 4294967298, row_dsaMagnitude = 8, row_dsaAmplitude = 8,
             row_mioMagnitude = 8, row_mioAmplitude = 8\<rparr>])"
  by (simp add: RefClk_DFT_def sizes_wrapped numeral_2_eq_2 RefClk_bin_def Let_def magnitude_real
      phase_deg_pos_real NormalizePhaseAngleDifference_def div_double_def)


section \<open>The dominant bin (ChnlExpSync.c)\<close>

text \<open>
  C1, as stated, on three silent bins: every magnitude is zero, the test
  \<^verbatim>\<open>dsaMagnitude >= maxMagnitude && mioMagnitude >= maxMagnitude\<close> holds at every
  bin (\<open>0 \<ge> 0\<close>), and the loop ends with \<^verbatim>\<open>maxMagnitudeIndex = 2\<close>, not 0;
  \<^verbatim>\<open>DFT\<close> reports 5000 Hz, not 0.
\<close>

theorem C1_counterexample:
  "magnitude (0, 0) = 0
   \<and> ChnlExp_loop 2500 4 [(0, 0), (0, 0), (0, 0)] [(0, 0), (0, 0), (0, 0)] 3 =
       Inr \<lparr>maxMagnitudeIndex = 2, maxMagnitude = 0,
            csv_lines =
              [\<lparr>row_freq = 0, row_dsaMagnitude = 0, row_dsaAmplitude = 0,
                 row_mioMagnitude = 0, row_mioAmplitude = 0\<rparr>,
               \<lparr>row_freq = 2500, row_dsaMagnitude = 0, row_dsaAmplitude = 0,
                 row_mioMagnitude = 0, row_mioAmplitude = 0\<rparr>,
               \<lparr>row_freq = 5000, row_dsaMagnitude = 0, row_dsaAmplitude = 0,
                 row_mioMagnitude = 0, row_mioAmplitude = 0\<rparr>]\<rparr>
   \<and> ChnlExp_DFT [(0, 0), (0, 0), (0, 0)] [(0, 0), (0, 0), (0, 0)] 10000 4 =
       Inr ([\<lparr>row_freq = 0, row_dsaMagnitude = 0, row_dsaAmplitude = 0,
                 row_mioMagnitude = 0, row_mioAmplitude = 0\<rparr>,
             \<lparr>row_freq = 2500, row_dsaMagnitude = 0, row_dsaAmplitude = 0,
                 row_mioMagnitude = 0, row_mioAmplitude = 0\<rparr>,
             \<lparr>row_freq = 5000, row_dsaMagnitude = 0, row_dsaAmplitude = 0,
                 row_mioMagnitude = 0, row_mioAmplitude = 0\<rparr>],
            \<lparr>measuredPhaseSkewDeg = 0, measuredPhaseSkewSec = Finite 0,
             measuredFreq = 5000\<rparr>)"
proof -
  have loop: "ChnlExp_loop 2500 4 [(0, 0), (0, 0), (0, 0)] [(0, 0), (0, 0), (0, 0)] 3 =
       Inr \<lparr>maxMagnitudeIndex = 2, maxMagnitude = 0,
            csv_lines =
              [\<lparr>row_freq = 0, row_dsaMagnitude = 0, row_dsaAmplitude = 0,
                 row_mioMagnitude = 0, row_mioAmplitude = 0\<rparr>,
               \<lparr>row_freq = 2500, row_dsaMagnitude = 0, row_dsaAmplitude = 0,
                 row_mioMagnitude = 0, row_mioAmplitude = 0\<rparr>,
               \<lparr>row_freq = 5000, row_dsaMagnitude = 0, row_dsaAmplitude = 0,
                 row_mioMagnitude = 0, row_mioAmplitude = 0\<rparr>]\<rparr>"
    by (simp add: numeral_3_eq_3 ChnlExp_bin_def magnitude_real double_to_int_def INT_MAX_def)
  have sizes: "long_long_to_int 4 = 4" "nat ((4::int) sdiv 2 + 1) = 3"
    by (simp_all add: long_long_to_int_def signed_divide_int_def)
  show ?thesis
    by (simp add: loop ChnlExp_DFT_def sizes ChnlExp_estimate_def phase_deg_origin
        NormalizePhaseAngleDifference_def div_double_def magnitude_real)
qed

text \<open>
  C1, amended: for every pair of spectra of the length \<open>L = n/2 + 1\<close> that
  \<^verbatim>\<open>DFT\<close> scans, in which every bin magnitude of both channels is zero, the
  scan selects the last bin, index \<open>L - 1\<close>, and the reported frequency is
  \<open>(L - 1) * sampleRate / sampsPerChan\<close>. (The DC bin is selected only when the
  spectrum has a single bin.)
\<close>

theorem C1_silence_selects_last_bin:
  assumes "0 < long_long_to_int sampsPerChan"
    and "L = nat (long_long_to_int sampsPerChan sdiv 2 + 1)"
    and "length dsaOutput = L" and "length mioOutput = L"
    and "\<forall>i<L. magnitude (dsaOutput ! i) = 0 \<and> magnitude (mioOutput ! i) = 0"
  shows "\<exists>s rows m.
           ChnlExp_loop (sampleRate / real_of_int sampsPerChan) (long_long_to_int sampsPerChan)
             dsaOutput mioOutput L = Inr s
         \<and> maxMagnitudeIndex s = int L - 1
         \<and> ChnlExp_DFT dsaOutput mioOutput sampleRate sampsPerChan = Inr (rows, m)
         \<and> measuredFreq m = (real L - 1) * (sampleRate / real_of_int sampsPerChan)"
proof -
  from assms(1,2) have L: "0 < L"
    by (simp add: signed_divide_int_def)
  from ChnlExp_loop_silence [OF assms(5)]
  obtain s where s: "ChnlExp_loop (sampleRate / real_of_int sampsPerChan)
      (long_long_to_int sampsPerChan) dsaOutput mioOutput L = Inr s"
    and idx: "maxMagnitudeIndex s = int (L - 1)"
    by blast
  from L have idx': "int (L - 1) = int L - 1" by simp
  have "ChnlExp_DFT dsaOutput mioOutput sampleRate sampsPerChan =
      Inr (csv_lines s,
           ChnlExp_estimate (sampleRate / real_of_int sampsPerChan) dsaOutput mioOutput
             (maxMagnitudeIndex s))"
    using assms(1) s by (simp add: ChnlExp_DFT_def Let_def flip: assms(2))
  moreover have "measuredFreq (ChnlExp_estimate (sampleRate / real_of_int sampsPerChan)
        dsaOutput mioOutput (maxMagnitudeIndex s))
      = (real L - 1) * (sampleRate / real_of_int sampsPerChan)"
    using L by (simp add: ChnlExp_estimate_def Let_def idx)
  ultimately show ?thesis using s idx idx' by auto
qed

text \<open>
  The amended C1 on three silent bins.
\<close>

theorem C1_silence_selects_last_bin_witness:
  "\<exists>s rows m.
     ChnlExp_loop (10000 / real_of_int 4) (long_long_to_int 4)
       [(0, 0), (0, 0), (0, 0)] [(0, 0), (0, 0), (0, 0)] 3 = Inr s
   \<and> maxMagnitudeIndex s = 2
   \<and> ChnlExp_DFT [(0, 0), (0, 0), (0, 0)] [(0, 0), (0, 0), (0, 0)] 10000 4 = Inr (rows, m)
   \<and> measuredFreq m = 5000"
proof -
  have n: "0 < long_long_to_int 4" and L: "3 = nat (long_long_to_int 4 sdiv 2 + 1)"
    by (simp_all add: long_long_to_int_def signed_divide_int_def)
  have z: "\<forall>i<3. magnitude ([(0, 0), (0, 0), (0, 0)] ! i) = 0
                \<and> magnitude ([(0, 0), (0, 0), (0, 0)] ! i) = 0"
    by (simp add: numeral_3_eq_3 less_Suc_eq magnitude_real)
  from C1_silence_selects_last_bin [OF n L _ _ z, of 10000]
  show ?thesis by simp
qed

text \<open>
  C2, as stated, on a spectrum whose bins 1 and 2 both have magnitude 3 on both
  channels (bin 0 is silent): the scan returns bin 2, the higher index.
\<close>

theorem C2_counterexample:
  "magnitude ([(0, 0), (3, 0), (3, 0)] ! 1) = 3 \<and> magnitude ([(0, 0), (3, 0), (3, 0)] ! 2) = 3
   \<and> magnitude ([(0, 0), (3, 0), (3, 0)] ! 0) = 0
   \<and> ChnlExp_loop 2500 4 [(0, 0), (3, 0), (3, 0)] [(0, 0), (3, 0), (3, 0)] 3 =
       Inr \<lparr>maxMagnitudeIndex = 2, maxMagnitude = 3,
            csv_lines =
              [\<lparr>row_freq = 0, row_dsaMagnitude = 0, row_dsaAmplitude = 0,
                 row_mioMagnitude = 0, row_mioAmplitude = 0\<rparr>,
               \<lparr>row_freq = 2500, row_dsaMagnitude = 3, row_dsaAmplitude = 3 / 2,
                 row_mioMagnitude = 3, row_mioAmplitude = 3 / 2\<rparr>,
               \<lparr>row_freq = 5000, row_dsaMagnitude = 3, row_dsaAmplitude = 3 / 2,
                 row_mioMagnitude = 3, row_mioAmplitude = 3 / 2\<rparr>]\<rparr>"
  by (simp add: numeral_3_eq_3 numeral_2_eq_2 ChnlExp_bin_def magnitude_real double_to_int_def
      INT_MAX_def)

text \<open>
  C2, amended: for every pair of equal-length spectra with two bins \<open>i < j\<close>
  whose magnitudes are equal on both channels, \<open>m\<close>, where no bin of channel A
  exceeds \<open>m\<close> (and \<open>m\<close> fits an \<^verbatim>\<open>int\<close>), the scan never returns the lower index
  \<open>i\<close>: it returns an index at or above \<open>j\<close>, and exactly \<open>j\<close> when no later
  bin reaches the truncated \<open>m\<close> on both channels. The last bin met in the
  forward scan wins a tie.
\<close>

theorem C2_tie_selects_higher_bin:
  assumes "length dsaOutput = L" and "length mioOutput = L"
    and "i < j" and "j < L"
    and "magnitude (dsaOutput ! i) = m" and "magnitude (mioOutput ! i) = m"
    and "magnitude (dsaOutput ! j) = m" and "magnitude (mioOutput ! j) = m"
    and "\<forall>k<L. magnitude (dsaOutput ! k) \<le> m"
    and "m < 2147483648"
  shows "\<exists>s. ChnlExp_loop binPrecision n dsaOutput mioOutput L = Inr s
           \<and> int j \<le> maxMagnitudeIndex s
           \<and> maxMagnitudeIndex s \<noteq> int i
           \<and> ((\<forall>k. j < k \<and> k < L \<longrightarrow>
                  magnitude (dsaOutput ! k) < real_of_int \<lfloor>m\<rfloor>
                  \<or> magnitude (mioOutput ! k) < real_of_int \<lfloor>m\<rfloor>)
                \<longrightarrow> maxMagnitudeIndex s = int j)"
proof -
  have m0: "0 \<le> m" using magnitude_nonneg [of "dsaOutput ! i"] assms(5) by simp
  from assms(4,9) have "\<forall>k<j. magnitude (dsaOutput ! k) \<le> m" by simp
  from ChnlExp_loop_bounded [OF this m0 assms(10)]
  obtain s0 where s0: "ChnlExp_loop binPrecision n dsaOutput mioOutput j = Inr s0"
    and thr0: "real_of_int (maxMagnitude s0) \<le> m"
    by blast
  from ChnlExp_bin_accept [of s0 dsaOutput j mioOutput binPrecision n] thr0 assms(7,8,10)
  obtain s1 where step: "ChnlExp_bin binPrecision n dsaOutput mioOutput j s0 = Inr s1"
    and idx1: "maxMagnitudeIndex s1 = int j" and thr1: "maxMagnitude s1 = \<lfloor>m\<rfloor>"
    by auto
  from s0 step have s1: "ChnlExp_loop binPrecision n dsaOutput mioOutput (Suc j) = Inr s1"
    by simp
  from assms(4) obtain d where L: "L = Suc j + d"
    by (metis Suc_leI le_Suc_ex)
  from assms(9,10) have "\<forall>k<L. magnitude (dsaOutput ! k) < 2147483648"
    by (meson le_less_trans)
  from ChnlExp_loop_total [OF this]
  obtain s where s: "ChnlExp_loop binPrecision n dsaOutput mioOutput L = Inr s" by blast
  from ChnlExp_loop_index_mono [of binPrecision n dsaOutput mioOutput "Suc j" d s] s s1 idx1
  have ge: "int j \<le> maxMagnitudeIndex s" by (simp add: L)
  with assms(3) have ne: "maxMagnitudeIndex s \<noteq> int i" by simp
  have "maxMagnitudeIndex s = int j"
    if "\<forall>k. j < k \<and> k < L \<longrightarrow>
          magnitude (dsaOutput ! k) < real_of_int \<lfloor>m\<rfloor>
          \<or> magnitude (mioOutput ! k) < real_of_int \<lfloor>m\<rfloor>"
  proof -
    from that have "\<forall>k. Suc j \<le> k \<and> k < Suc j + d \<longrightarrow>
           magnitude (dsaOutput ! k) < real_of_int (maxMagnitude s1)
           \<or> magnitude (mioOutput ! k) < real_of_int (maxMagnitude s1)"
      by (simp add: thr1 L Suc_le_eq)
    from ChnlExp_loop_stays [OF s1 this] s idx1 show ?thesis
      by (simp add: L)
  qed
  with s ge ne show ?thesis by blast
qed

text \<open>
  The amended C2 on the spectrum above.
\<close>

theorem C2_tie_selects_higher_bin_witness:
  "\<exists>s. ChnlExp_loop 2500 4 [(0, 0), (3, 0), (3, 0)] [(0, 0), (3, 0), (3, 0)] 3 = Inr s
       \<and> maxMagnitudeIndex s = 2"
proof -
  have le: "\<forall>k<3. magnitude ([(0, 0), (3, 0), (3, 0)] ! k) \<le> 3"
    by (simp add: numeral_3_eq_3 less_Suc_eq magnitude_real)
  have m: "magnitude ([(0, 0), (3, 0), (3, 0)] ! 1) = 3"
    "magnitude ([(0, 0), (3, 0), (3, 0)] ! 2) = 3"
    by (simp_all add: magnitude_real numeral_2_eq_2)
  from C2_tie_selects_higher_bin [of "[(0, 0), (3, 0), (3, 0)]" 3 "[(0, 0), (3, 0), (3, 0)]"
      1 2 3 2500 4, OF _ _ _ _ m(1) m(1) m(2) m(2) le]
  show ?thesis by auto
qed

text \<open>
  C9: \<^verbatim>\<open>maxMagnitude\<close> is an \<^verbatim>\<open>int\<close>. After the bins \<open>0, \<dots>, k\<close> the threshold is
  the channel-A magnitude of the selected bin with its fraction cut off. If both
  magnitudes of the next bin are at least that truncated value (and the
  channel-A magnitude fits an \<^verbatim>\<open>int\<close>), the next bin replaces the selection and
  the threshold becomes its truncated channel-A magnitude; this holds also when
  the new magnitude is below the magnitude of the bin it replaces, and then it
  is below it by less than 1.
\<close>

theorem C9_int_threshold:
  assumes "ChnlExp_loop binPrecision n dsaOutput mioOutput (Suc k) = Inr s"
    and "real_of_int \<lfloor>magnitude (dsaOutput ! nat (maxMagnitudeIndex s))\<rfloor>
           \<le> magnitude (dsaOutput ! Suc k)"
    and "real_of_int \<lfloor>magnitude (dsaOutput ! nat (maxMagnitudeIndex s))\<rfloor>
           \<le> magnitude (mioOutput ! Suc k)"
    and "magnitude (dsaOutput ! Suc k) < 2147483648"
  shows "maxMagnitude s = \<lfloor>magnitude (dsaOutput ! nat (maxMagnitudeIndex s))\<rfloor>
       \<and> nat (maxMagnitudeIndex s) \<le> k
       \<and> (\<exists>s'. ChnlExp_loop binPrecision n dsaOutput mioOutput (Suc (Suc k)) = Inr s'
              \<and> maxMagnitudeIndex s' = int (Suc k)
              \<and> maxMagnitude s' = \<lfloor>magnitude (dsaOutput ! Suc k)\<rfloor>)
       \<and> (magnitude (dsaOutput ! Suc k) < magnitude (dsaOutput ! nat (maxMagnitudeIndex s))
            \<longrightarrow> magnitude (dsaOutput ! nat (maxMagnitudeIndex s))
                   - magnitude (dsaOutput ! Suc k) < 1)"
proof -
  from ChnlExp_loop_threshold [OF assms(1)]
  have idx: "0 \<le> maxMagnitudeIndex s" "maxMagnitudeIndex s \<le> int k"
    and thr: "maxMagnitude s = \<lfloor>magnitude (dsaOutput ! nat (maxMagnitudeIndex s))\<rfloor>"
    by simp_all
  from ChnlExp_bin_accept [of s dsaOutput "Suc k" mioOutput binPrecision n] assms(2-4)
  obtain s' where "ChnlExp_bin binPrecision n dsaOutput mioOutput (Suc k) s = Inr s'"
    "maxMagnitudeIndex s' = int (Suc k)" "maxMagnitude s' = \<lfloor>magnitude (dsaOutput ! Suc k)\<rfloor>"
    by (auto simp: thr)
  with assms(1) have "\<exists>s'. ChnlExp_loop binPrecision n dsaOutput mioOutput (Suc (Suc k)) = Inr s'
              \<and> maxMagnitudeIndex s' = int (Suc k)
              \<and> maxMagnitude s' = \<lfloor>magnitude (dsaOutput ! Suc k)\<rfloor>"
    by simp
  moreover have "magnitude (dsaOutput ! nat (maxMagnitudeIndex s))
                   - magnitude (dsaOutput ! Suc k) < 1"
    using assms(2) by linarith
  ultimately show ?thesis using idx thr by auto
qed

text \<open>
  C9 on two bins of magnitude 2.9 and 2.1: the threshold after bin 0 is 2, and
  bin 1 replaces bin 0 although \<open>2.1 < 2.9\<close>.
\<close>

theorem C9_int_threshold_witness:
  "magnitude ([(29 / 10, 0), (21 / 10, 0)] ! Suc 0) < magnitude ([(29 / 10, 0), (21 / 10, 0)] ! 0)
   \<and> (\<exists>s'. ChnlExp_loop 5000 2 [(29 / 10, 0), (21 / 10, 0)] [(29 / 10, 0), (21 / 10, 0)]
              (Suc (Suc 0)) = Inr s'
          \<and> maxMagnitudeIndex s' = 1 \<and> maxMagnitude s' = 2)"
proof -
  have s: "ChnlExp_loop 5000 2 [(29 / 10, 0), (21 / 10, 0)] [(29 / 10, 0), (21 / 10, 0)] (Suc 0)
      = Inr \<lparr>maxMagnitudeIndex = 0, maxMagnitude = 2,
             csv_lines = [\<lparr>row_freq = 0, row_dsaMagnitude = 29 / 10, row_dsaAmplitude = 29 / 10,
                 row_mioMagnitude = 29 / 10, row_mioAmplitude = 29 / 10\<rparr>]\<rparr>"
    by (simp add: ChnlExp_bin_def Let_def magnitude_real double_to_int_def INT_MAX_def)
  from C9_int_threshold [OF s]
  show ?thesis by (simp add: magnitude_real)
qed


section \<open>The skew in seconds\<close>

text \<open>
  C3, as stated, on the spectrum whose DC bin dominates: the selected frequency
  is 0, \<^verbatim>\<open>DFT\<close> of ChnlExpSync.c returns normally, and the value it writes to
  \<^verbatim>\<open>*measuredPhaseSkewSec\<close> is the NaN of \<open>0 * (1/0)\<close>; \<^verbatim>\<open>DFT\<close> of RefClkSync.c
  writes the same NaN, because the DC bin is the last one above its gate.
  Neither reports a separate "undefined" result.
\<close>

theorem C3_counterexample:
  "ChnlExp_DFT [(8, 0), (1, 0), (0, 0)] [(8, 0), (1, 0), (0, 0)] 10000 4 =
     Inr ([\<lparr>row_freq = 0, row_dsaMagnitude = 8, row_dsaAmplitude = 4,
             row_mioMagnitude = 8, row_mioAmplitude = 4\<rparr>,
           \<lparr>row_freq = 2500, row_dsaMagnitude = 1, row_dsaAmplitude = 1 / 2,
             row_mioMagnitude = 1, row_mioAmplitude = 1 / 2\<rparr>,
           \<lparr>row_freq = 5000, row_dsaMagnitude = 0, row_dsaAmplitude = 0,
             row_mioMagnitude = 0, row_mioAmplitude = 0\<rparr>],
          \<lparr>measuredPhaseSkewDeg = 0, measuredPhaseSkewSec = NaN, measuredFreq = 0\<rparr>)
   \<and> RefClk_DFT [(8, 0), (1, 0), (0, 0)] [(8, 0), (1, 0), (0, 0)] 10000 4
       \<lparr>measuredPhaseSkewDeg = 0, measuredPhaseSkewSec = Finite 0, measuredFreq = 0\<rparr> =
     Inr (\<lparr>measuredPhaseSkewDeg = 0, measuredPhaseSkewSec = NaN, measuredFreq = 0\<rparr>,
          [\<lparr>row_freq = 0, row_dsaMagnitude = 8, row_dsaAmplitude = 4,
             row_mioMagnitude = 8, row_mioAmplitude = 4\<rparr>,
           \<lparr>row_freq = 2500, row_dsaMagnitude = 1, row_dsaAmplitude = 1 / 2,
             row_mioMagnitude = 1, row_mioAmplitude = 1 / 2\<rparr>,
           \<lparr>row_freq = 5000, row_dsaMagnitude = 0, row_dsaAmplitude = 0,
             row_mioMagnitude = 0, row_mioAmplitude = 0\<rparr>])"
  by (simp only: ChnlExp_run_dc RefClk_run_dc simp_thms)

text \<open>
  C3, amended: neither file guards the division by the frequency, and neither
  has a separate "undefined" result. Whenever \<^verbatim>\<open>DFT\<close> of ChnlExpSync.c
  reports the frequency 0, the skew in seconds it reports is the IEEE value of
  \<open>(d/360) * (1/0)\<close> at the bin it selected: NaN when the raw phase difference
  \<open>d\<close> is 0, an infinity otherwise. Whenever the last bin that passes the gate
  of RefClkSync.c has frequency 0, the reported frequency is 0 and the reported
  skew in seconds is that same value: NaN when \<open>d = 0\<close>, an infinity otherwise.
\<close>

theorem C3_zero_frequency_unguarded:
  "(ChnlExp_DFT dsaOutput mioOutput sampleRate sampsPerChan = Inr (rows, m) \<and> measuredFreq m = 0
      \<longrightarrow> (\<exists>k<nat (long_long_to_int sampsPerChan sdiv 2 + 1).
             real k * (sampleRate / real_of_int sampsPerChan) = 0
           \<and> measuredPhaseSkewDeg m =
               NormalizePhaseAngleDifference
                 (phase_deg (dsaOutput ! k) - phase_deg (mioOutput ! k))
           \<and> measuredPhaseSkewSec m =
               (if phase_deg (dsaOutput ! k) - phase_deg (mioOutput ! k) = 0
                then NaN else Infinite)))
   \<and> (RefClk_DFT dsaOutput mioOutput sampleRate sampsPerChan outs0 = Inr (outs, rows')
       \<and> j < nat (long_long_to_int sampsPerChan sdiv 2 + 1)
       \<and> 5 \<le> magnitude (dsaOutput ! j) \<and> 5 \<le> magnitude (mioOutput ! j)
       \<and> (\<forall>i. j < i \<and> i < nat (long_long_to_int sampsPerChan sdiv 2 + 1) \<longrightarrow>
              \<not> (5 \<le> magnitude (dsaOutput ! i) \<and> 5 \<le> magnitude (mioOutput ! i)))
       \<and> real j * (sampleRate / real_of_int sampsPerChan) = 0
      \<longrightarrow> measuredFreq outs = 0
          \<and> measuredPhaseSkewSec outs =
              (if phase_deg (dsaOutput ! j) - phase_deg (mioOutput ! j) = 0
               then NaN else Infinite))"
proof (rule conjI; rule impI)
  assume a: "ChnlExp_DFT dsaOutput mioOutput sampleRate sampsPerChan = Inr (rows, m)
             \<and> measuredFreq m = 0"
  then have "ChnlExp_DFT dsaOutput mioOutput sampleRate sampsPerChan = Inr (rows, m)" ..
  from ChnlExp_DFT_selected [OF this]
  obtain k where k: "k < nat (long_long_to_int sampsPerChan sdiv 2 + 1)"
    and m: "m = ChnlExp_estimate (sampleRate / real_of_int sampsPerChan)
                  dsaOutput mioOutput (int k)"
    by blast
  have mf: "measuredFreq m = real k * (sampleRate / real_of_int sampsPerChan)"
    by (simp add: m ChnlExp_estimate_def Let_def)
  have md: "measuredPhaseSkewDeg m =
      NormalizePhaseAngleDifference (phase_deg (dsaOutput ! k) - phase_deg (mioOutput ! k))"
    by (simp add: m ChnlExp_estimate_def Let_def)
  have ms: "measuredPhaseSkewSec m
      = mult_double ((phase_deg (dsaOutput ! k) - phase_deg (mioOutput ! k)) / 360)
          (div_double 1 (real k * (sampleRate / real_of_int sampsPerChan)))"
    by (simp add: m ChnlExp_estimate_def Let_def)
  from a have "measuredFreq m = 0" ..
  then have z: "real k * (sampleRate / real_of_int sampsPerChan) = 0"
    unfolding mf .
  have "measuredPhaseSkewSec m =
      (if phase_deg (dsaOutput ! k) - phase_deg (mioOutput ! k) = 0 then NaN else Infinite)"
    unfolding ms z by (rule sec_at_zero_frequency_exact)
  with k z md
  show "\<exists>k<nat (long_long_to_int sampsPerChan sdiv 2 + 1).
             real k * (sampleRate / real_of_int sampsPerChan) = 0
           \<and> measuredPhaseSkewDeg m =
               NormalizePhaseAngleDifference
                 (phase_deg (dsaOutput ! k) - phase_deg (mioOutput ! k))
           \<and> measuredPhaseSkewSec m =
               (if phase_deg (dsaOutput ! k) - phase_deg (mioOutput ! k) = 0
                then NaN else Infinite)"
    by blast
next
  assume a: "RefClk_DFT dsaOutput mioOutput sampleRate sampsPerChan outs0 = Inr (outs, rows')
       \<and> j < nat (long_long_to_int sampsPerChan sdiv 2 + 1)
       \<and> 5 \<le> magnitude (dsaOutput ! j) \<and> 5 \<le> magnitude (mioOutput ! j)
       \<and> (\<forall>i. j < i \<and> i < nat (long_long_to_int sampsPerChan sdiv 2 + 1) \<longrightarrow>
              \<not> (5 \<le> magnitude (dsaOutput ! i) \<and> 5 \<le> magnitude (mioOutput ! i)))
       \<and> real j * (sampleRate / real_of_int sampsPerChan) = 0"
  then have "outs = fst (RefClk_loop sampleRate sampsPerChan (long_long_to_int sampsPerChan)
      dsaOutput mioOutput (nat (long_long_to_int sampsPerChan sdiv 2 + 1)) (outs0, []))"
    by (auto simp: RefClk_DFT_def Let_def split: if_splits)
  also have "\<dots> = \<lparr>measuredPhaseSkewDeg =
          NormalizePhaseAngleDifference (phase_deg (dsaOutput ! j) - phase_deg (mioOutput ! j)),
        measuredPhaseSkewSec =
          mult_double ((phase_deg (dsaOutput ! j) - phase_deg (mioOutput ! j)) / 360)
            (div_double 1 (real j * (sampleRate / real_of_int sampsPerChan))),
        measuredFreq = real j * (sampleRate / real_of_int sampsPerChan)\<rparr>"
    using a by (intro RefClk_loop_last) simp_all
  finally have outs: "outs = \<lparr>measuredPhaseSkewDeg =
          NormalizePhaseAngleDifference (phase_deg (dsaOutput ! j) - phase_deg (mioOutput ! j)),
        measuredPhaseSkewSec =
          mult_double ((phase_deg (dsaOutput ! j) - phase_deg (mioOutput ! j)) / 360)
            (div_double 1 (real j * (sampleRate / real_of_int sampsPerChan))),
        measuredFreq = real j * (sampleRate / real_of_int sampsPerChan)\<rparr>" .
  from a have z: "real j * (sampleRate / real_of_int sampsPerChan) = 0" by simp
  show "measuredFreq outs = 0
          \<and> measuredPhaseSkewSec outs =
              (if phase_deg (dsaOutput ! j) - phase_deg (mioOutput ! j) = 0
               then NaN else Infinite)"
    using sec_at_zero_frequency_exact
    by (simp only: outs z measurement.simps simp_thms)
qed

text \<open>
  The amended C3 on the spectrum whose DC bin dominates (\<open>d = 0\<close>, NaN in both
  files) and on the one with the DC bin of the second channel negated
  (\<open>d \<noteq> 0\<close>, an infinity in both files).
\<close>

theorem C3_zero_frequency_unguarded_witness:
  "ChnlExp_DFT [(8, 0), (1, 0), (0, 0)] [(8, 0), (1, 0), (0, 0)] 10000 4 =
     Inr ([\<lparr>row_freq = 0, row_dsaMagnitude = 8, row_dsaAmplitude = 4,
             row_mioMagnitude = 8, row_mioAmplitude = 4\<rparr>,
           \<lparr>row_freq = 2500, row_dsaMagnitude = 1, row_dsaAmplitude = 1 / 2,
             row_mioMagnitude = 1, row_mioAmplitude = 1 / 2\<rparr>,
           \<lparr>row_freq = 5000, row_dsaMagnitude = 0, row_dsaAmplitude = 0,
             row_mioMagnitude = 0, row_mioAmplitude = 0\<rparr>],
          \<lparr>measuredPhaseSkewDeg = 0, measuredPhaseSkewSec = NaN, measuredFreq = 0\<rparr>)
   \<and> RefClk_DFT [(8, 0), (1, 0), (0, 0)] [(8, 0), (1, 0), (0, 0)] 10000 4
       \<lparr>measuredPhaseSkewDeg = 0, measuredPhaseSkewSec = Finite 0, measuredFreq = 0\<rparr> =
     Inr (\<lparr>measuredPhaseSkewDeg = 0, measuredPhaseSkewSec = NaN, measuredFreq = 0\<rparr>,
          [\<lparr>row_freq = 0, row_dsaMagnitude = 8, row_dsaAmplitude = 4,
             row_mioMagnitude = 8, row_mioAmplitude = 4\<rparr>,
           \<lparr>row_freq = 2500, row_dsaMagnitude = 1, row_dsaAmplitude = 1 / 2,
             row_mioMagnitude = 1, row_mioAmplitude = 1 / 2\<rparr>,
           \<lparr>row_freq = 5000, row_dsaMagnitude = 0, row_dsaAmplitude = 0,
             row_mioMagnitude = 0, row_mioAmplitude = 0\<rparr>])
   \<and> phase_deg ([(8, 0), (1, 0), (0, 0)] ! 0) - phase_deg ([(8, 0), (1, 0), (0, 0)] ! 0) = 0
   \<and> measuredPhaseSkewSec \<lparr>measuredPhaseSkewDeg = 0, measuredPhaseSkewSec = NaN, measuredFreq = 0\<rparr> = NaN
   \<and> ChnlExp_DFT [(8, 0), (1, 0), (0, 0)] [(- 8, 0), (1, 0), (0, 0)] 10000 4 =
     Inr ([\<lparr>row_freq = 0, row_dsaMagnitude = 8, row_dsaAmplitude = 4,
             row_mioMagnitude = 8, row_mioAmplitude = 4\<rparr>,
           \<lparr>row_freq = 2500, row_dsaMagnitude = 1, row_dsaAmplitude = 1 / 2,
             row_mioMagnitude = 1, row_mioAmplitude = 1 / 2\<rparr>,
           \<lparr>row_freq = 5000, row_dsaMagnitude = 0, row_dsaAmplitude = 0,
             row_mioMagnitude = 0, row_mioAmplitude = 0\<rparr>],
          \<lparr>measuredPhaseSkewDeg =
             NormalizePhaseAngleDifference (phase_deg (8, 0) - phase_deg (- 8, 0)),
           measuredPhaseSkewSec = Infinite, measuredFreq = 0\<rparr>)
   \<and> RefClk_DFT [(8, 0), (1, 0), (0, 0)] [(- 8, 0), (1, 0), (0, 0)] 10000 4
       \<lparr>measuredPhaseSkewDeg = 0, measuredPhaseSkewSec = Finite 0, measuredFreq = 0\<rparr> =
     Inr (\<lparr>measuredPhaseSkewDeg =
             NormalizePhaseAngleDifference (phase_deg (8, 0) - phase_deg (- 8, 0)),
           measuredPhaseSkewSec = Infinite, measuredFreq = 0\<rparr>,
          [\<lparr>row_freq = 0, row_dsaMagnitude = 8, row_dsaAmplitude = 4,
             row_mioMagnitude = 8, row_mioAmplitude = 4\<rparr>,
           \<lparr>row_freq = 2500, row_dsaMagnitude = 1, row_dsaAmplitude = 1 / 2,
             row_mioMagnitude = 1, row_mioAmplitude = 1 / 2\<rparr>,
           \<lparr>row_freq = 5000, row_dsaMagnitude = 0, row_dsaAmplitude = 0,
             row_mioMagnitude = 0, row_mioAmplitude = 0\<rparr>])
   \<and> phase_deg ([(8, 0), (1, 0), (0, 0)] ! 0) - phase_deg ([(- 8, 0), (1, 0), (0, 0)] ! 0) \<noteq> 0
   \<and> measuredPhaseSkewSec
        \<lparr>measuredPhaseSkewDeg =
             NormalizePhaseAngleDifference (phase_deg (8, 0) - phase_deg (- 8, 0)),
           measuredPhaseSkewSec = Infinite, measuredFreq = 0\<rparr> = Infinite
   \<and> 5 \<le> magnitude ([(8, 0), (1, 0), (0, 0)] ! 0) \<and> 5 \<le> magnitude ([(- 8, 0), (1, 0), (0, 0)] ! 0)
   \<and> real 0 * (10000 / real_of_int 4) = 0"
  using C3_zero_frequency_unguarded [of "[(8, 0), (1, 0), (0, 0)]" "[(8, 0), (1, 0), (0, 0)]" 10000 4
      "[\<lparr>row_freq = 0, row_dsaMagnitude = 8, row_dsaAmplitude = 4,
             row_mioMagnitude = 8, row_mioAmplitude = 4\<rparr>,
           \<lparr>row_freq = 2500, row_dsaMagnitude = 1, row_dsaAmplitude = 1 / 2,
             row_mioMagnitude = 1, row_mioAmplitude = 1 / 2\<rparr>,
           \<lparr>row_freq = 5000, row_dsaMagnitude = 0, row_dsaAmplitude = 0,
             row_mioMagnitude = 0, row_mioAmplitude = 0\<rparr>]"
      "\<lparr>measuredPhaseSkewDeg = 0, measuredPhaseSkewSec = NaN, measuredFreq = 0\<rparr>"
      "\<lparr>measuredPhaseSkewDeg = 0, measuredPhaseSkewSec = Finite 0, measuredFreq = 0\<rparr>"
      "\<lparr>measuredPhaseSkewDeg = 0, measuredPhaseSkewSec = NaN, measuredFreq = 0\<rparr>"
      "[\<lparr>row_freq = 0, row_dsaMagnitude = 8, row_dsaAmplitude = 4,
             row_mioMagnitude = 8, row_mioAmplitude = 4\<rparr>,
           \<lparr>row_freq = 2500, row_dsaMagnitude = 1, row_dsaAmplitude = 1 / 2,
             row_mioMagnitude = 1, row_mioAmplitude = 1 / 2\<rparr>,
           \<lparr>row_freq = 5000, row_dsaMagnitude = 0, row_dsaAmplitude = 0,
             row_mioMagnitude = 0, row_mioAmplitude = 0\<rparr>]" 0]
    C3_zero_frequency_unguarded [of "[(8, 0), (1, 0), (0, 0)]" "[(- 8, 0), (1, 0), (0, 0)]" 10000 4
      "[\<lparr>row_freq = 0, row_dsaMagnitude = 8, row_dsaAmplitude = 4,
             row_mioMagnitude = 8, row_mioAmplitude = 4\<rparr>,
           \<lparr>row_freq = 2500, row_dsaMagnitude = 1, row_dsaAmplitude = 1 / 2,
             row_mioMagnitude = 1, row_mioAmplitude = 1 / 2\<rparr>,
           \<lparr>row_freq = 5000, row_dsaMagnitude = 0, row_dsaAmplitude = 0,
             row_mioMagnitude = 0, row_mioAmplitude = 0\<rparr>]"
      "\<lparr>measuredPhaseSkewDeg =
             NormalizePhaseAngleDifference (phase_deg (8, 0) - phase_deg (- 8, 0)),
           measuredPhaseSkewSec = Infinite, measuredFreq = 0\<rparr>"
      "\<lparr>measuredPhaseSkewDeg = 0, measuredPhaseSkewSec = Finite 0, measuredFreq = 0\<rparr>"
      "\<lparr>measuredPhaseSkewDeg =
             NormalizePhaseAngleDifference (phase_deg (8, 0) - phase_deg (- 8, 0)),
           measuredPhaseSkewSec = Infinite, measuredFreq = 0\<rparr>"
      "[\<lparr>row_freq = 0, row_dsaMagnitude = 8, row_dsaAmplitude = 4,
             row_mioMagnitude = 8, row_mioAmplitude = 4\<rparr>,
           \<lparr>row_freq = 2500, row_dsaMagnitude = 1, row_dsaAmplitude = 1 / 2,
             row_mioMagnitude = 1, row_mioAmplitude = 1 / 2\<rparr>,
           \<lparr>row_freq = 5000, row_dsaMagnitude = 0, row_dsaAmplitude = 0,
             row_mioMagnitude = 0, row_mioAmplitude = 0\<rparr>]" 0]
    opposite_phase_difference
  by (simp add: ChnlExp_run_dc RefClk_run_dc ChnlExp_run_dc_opposite RefClk_run_dc_opposite
      magnitude_real)

text \<open>
  C4, as stated, on the spectrum with a peak at bin 1 and a raw phase difference
  below \<open>-90\<close> (so the normalisation adds 360): both files report the same skew
  in seconds, computed from the raw difference, and that value differs from the
  post-normalisation value the claim ascribes to ChnlExpSync.c.
\<close>

theorem C4_counterexample:
  "phase_deg (0, - 8) - phase_deg (0, 8) < - 90
   \<and> ChnlExp_DFT [(0, 0), (0, - 8), (0, 0)] [(0, 0), (0, 8), (0, 0)] 10000 4 =
     Inr ([\<lparr>row_freq = 0, row_dsaMagnitude = 0, row_dsaAmplitude = 0,
             row_mioMagnitude = 0, row_mioAmplitude = 0\<rparr>,
           \<lparr>row_freq = 2500, row_dsaMagnitude = 8, row_dsaAmplitude = 4,
             row_mioMagnitude = 8, row_mioAmplitude = 4\<rparr>,
           \<lparr>row_freq = 5000, row_dsaMagnitude = 0, row_dsaAmplitude = 0,
             row_mioMagnitude = 0, row_mioAmplitude = 0\<rparr>],
          \<lparr>measuredPhaseSkewDeg =
             NormalizePhaseAngleDifference (phase_deg (0, - 8) - phase_deg (0, 8)),
           measuredPhaseSkewSec =
             Finite ((phase_deg (0, - 8) - phase_deg (0, 8)) / 360 * (1 / 2500)),
           measuredFreq = 2500\<rparr>)
   \<and> RefClk_DFT [(0, 0), (0, - 8), (0, 0)] [(0, 0), (0, 8), (0, 0)] 10000 4
       \<lparr>measuredPhaseSkewDeg = 0, measuredPhaseSkewSec = Finite 0, measuredFreq = 0\<rparr> =
     Inr (\<lparr>measuredPhaseSkewDeg =
             NormalizePhaseAngleDifference (phase_deg (0, - 8) - phase_deg (0, 8)),
           measuredPhaseSkewSec =
             Finite ((phase_deg (0, - 8) - phase_deg (0, 8)) / 360 * (1 / 2500)),
           measuredFreq = 2500\<rparr>,
          [\<lparr>row_freq = 0, row_dsaMagnitude = 0, row_dsaAmplitude = 0,
             row_mioMagnitude = 0, row_mioAmplitude = 0\<rparr>,
           \<lparr>row_freq = 2500, row_dsaMagnitude = 8, row_dsaAmplitude = 4,
             row_mioMagnitude = 8, row_mioAmplitude = 4\<rparr>,
           \<lparr>row_freq = 5000, row_dsaMagnitude = 0, row_dsaAmplitude = 0,
             row_mioMagnitude = 0, row_mioAmplitude = 0\<rparr>])
   \<and> Finite ((phase_deg (0, - 8) - phase_deg (0, 8)) / 360 * (1 / 2500))
       \<noteq> spec_phaseSkewSec_post_normalization (0, - 8) (0, 8) 2500"
proof -
  have "Finite ((phase_deg (0, - 8) - phase_deg (0, 8)) / 360 * (1 / 2500))
       \<noteq> spec_phaseSkewSec_post_normalization (0, - 8) (0, 8) 2500"
    using half_turn_difference
    by (simp add: spec_phaseSkewSec_post_normalization_def NormalizePhaseAngleDifference_def
        div_double_def)
  with half_turn_difference show ?thesis
    by (simp only: ChnlExp_run_half_turn RefClk_run_half_turn simp_thms)
qed

text \<open>
  C4, amended: both files compute the skew in seconds from the pre-normalisation
  difference \<open>d = dsaPhase - mioPhase\<close>, as \<open>(d/360) * (1/f)\<close>, and the skew in
  degrees as the normalised \<open>d\<close>. What \<^verbatim>\<open>DFT\<close> of ChnlExpSync.c reports is
  this triple at the bin it selects; what \<^verbatim>\<open>DFT\<close> of RefClkSync.c leaves in its
  outputs is what they held at the call, or this triple at a bin that passed
  the gate. At a bin that passes the gate RefClkSync.c writes exactly the triple
  that ChnlExpSync.c computes when it selects that bin; crossing a wrap boundary
  makes no difference between the two.
\<close>

theorem C4_both_variants_pre_normalization:
  "(ChnlExp_DFT dsaOutput mioOutput sampleRate sampsPerChan = Inr (rows, m) \<longrightarrow>
      (\<exists>k<nat (long_long_to_int sampsPerChan sdiv 2 + 1).
          measuredFreq m = real k * (sampleRate / real_of_int sampsPerChan)
        \<and> measuredPhaseSkewDeg m =
            NormalizePhaseAngleDifference (phase_deg (dsaOutput ! k) - phase_deg (mioOutput ! k))
        \<and> measuredPhaseSkewSec m =
            spec_phaseSkewSec_pre_normalization (dsaOutput ! k) (mioOutput ! k)
              (real k * (sampleRate / real_of_int sampsPerChan))))
   \<and> (RefClk_DFT dsaOutput mioOutput sampleRate sampsPerChan outs0 = Inr (outs, rows') \<longrightarrow>
        outs = outs0
        \<or> (\<exists>k<nat (long_long_to_int sampsPerChan sdiv 2 + 1).
              5 \<le> magnitude (dsaOutput ! k) \<and> 5 \<le> magnitude (mioOutput ! k)
            \<and> measuredFreq outs = real k * (sampleRate / real_of_int sampsPerChan)
            \<and> measuredPhaseSkewDeg outs =
                NormalizePhaseAngleDifference
                  (phase_deg (dsaOutput ! k) - phase_deg (mioOutput ! k))
            \<and> measuredPhaseSkewSec outs =
                spec_phaseSkewSec_pre_normalization (dsaOutput ! k) (mioOutput ! k)
                  (real k * (sampleRate / real_of_int sampsPerChan))))
   \<and> (5 \<le> magnitude (dsaOutput ! j) \<and> 5 \<le> magnitude (mioOutput ! j) \<longrightarrow>
        fst (RefClk_bin sampleRate sampsPerChan n dsaOutput mioOutput j st)
          = ChnlExp_estimate (sampleRate / real_of_int sampsPerChan) dsaOutput mioOutput (int j))"
proof (intro conjI impI)
  assume "ChnlExp_DFT dsaOutput mioOutput sampleRate sampsPerChan = Inr (rows, m)"
  from ChnlExp_DFT_selected [OF this]
  show "\<exists>k<nat (long_long_to_int sampsPerChan sdiv 2 + 1).
          measuredFreq m = real k * (sampleRate / real_of_int sampsPerChan)
        \<and> measuredPhaseSkewDeg m =
            NormalizePhaseAngleDifference (phase_deg (dsaOutput ! k) - phase_deg (mioOutput ! k))
        \<and> measuredPhaseSkewSec m =
            spec_phaseSkewSec_pre_normalization (dsaOutput ! k) (mioOutput ! k)
              (real k * (sampleRate / real_of_int sampsPerChan))"
    by (auto simp: ChnlExp_estimate_def Let_def spec_phaseSkewSec_pre_normalization_def)
next
  assume "RefClk_DFT dsaOutput mioOutput sampleRate sampsPerChan outs0 = Inr (outs, rows')"
  then have "outs = fst (RefClk_loop sampleRate sampsPerChan (long_long_to_int sampsPerChan)
      dsaOutput mioOutput (nat (long_long_to_int sampsPerChan sdiv 2 + 1)) (outs0, []))"
    by (auto simp: RefClk_DFT_def Let_def split: if_splits)
  with RefClk_loop_outs_cases [of sampleRate sampsPerChan "long_long_to_int sampsPerChan"
      dsaOutput mioOutput "nat (long_long_to_int sampsPerChan sdiv 2 + 1)" "(outs0, [])"]
  show "outs = outs0
        \<or> (\<exists>k<nat (long_long_to_int sampsPerChan sdiv 2 + 1).
              5 \<le> magnitude (dsaOutput ! k) \<and> 5 \<le> magnitude (mioOutput ! k)
            \<and> measuredFreq outs = real k * (sampleRate / real_of_int sampsPerChan)
            \<and> measuredPhaseSkewDeg outs =
                NormalizePhaseAngleDifference
                  (phase_deg (dsaOutput ! k) - phase_deg (mioOutput ! k))
            \<and> measuredPhaseSkewSec outs =
                spec_phaseSkewSec_pre_normalization (dsaOutput ! k) (mioOutput ! k)
                  (real k * (sampleRate / real_of_int sampsPerChan)))"
    by (auto simp: spec_phaseSkewSec_pre_normalization_def)
next
  assume "5 \<le> magnitude (dsaOutput ! j) \<and> 5 \<le> magnitude (mioOutput ! j)"
  then show "fst (RefClk_bin sampleRate sampsPerChan n dsaOutput mioOutput j st)
          = ChnlExp_estimate (sampleRate / real_of_int sampsPerChan) dsaOutput mioOutput (int j)"
    by (simp add: ChnlExp_estimate_def RefClk_bin_outs Let_def)
qed

text \<open>
  The amended C4 at bin 1 of the spectrum above.
\<close>

theorem C4_both_variants_pre_normalization_witness:
  "ChnlExp_DFT [(0, 0), (0, - 8), (0, 0)] [(0, 0), (0, 8), (0, 0)] 10000 4 =
     Inr ([\<lparr>row_freq = 0, row_dsaMagnitude = 0, row_dsaAmplitude = 0,
             row_mioMagnitude = 0, row_mioAmplitude = 0\<rparr>,
           \<lparr>row_freq = 2500, row_dsaMagnitude = 8, row_dsaAmplitude = 4,
             row_mioMagnitude = 8, row_mioAmplitude = 4\<rparr>,
           \<lparr>row_freq = 5000, row_dsaMagnitude = 0, row_dsaAmplitude = 0,
             row_mioMagnitude = 0, row_mioAmplitude = 0\<rparr>],
          \<lparr>measuredPhaseSkewDeg =
             NormalizePhaseAngleDifference (phase_deg (0, - 8) - phase_deg (0, 8)),
           measuredPhaseSkewSec =
             Finite ((phase_deg (0, - 8) - phase_deg (0, 8)) / 360 * (1 / 2500)),
           measuredFreq = 2500\<rparr>)
   \<and> (\<exists>k<nat (long_long_to_int 4 sdiv 2 + 1).
         (2500::real) = real k * (10000 / real_of_int 4)
       \<and> Finite ((phase_deg (0, - 8) - phase_deg (0, 8)) / 360 * (1 / 2500)) =
           spec_phaseSkewSec_pre_normalization
             ([(0, 0), (0, - 8), (0, 0)] ! k) ([(0, 0), (0, 8), (0, 0)] ! k)
             (real k * (10000 / real_of_int 4)))
   \<and> 5 \<le> magnitude ([(0, 0), (0, - 8), (0, 0)] ! 1) \<and> 5 \<le> magnitude ([(0, 0), (0, 8), (0, 0)] ! 1)
   \<and> fst (RefClk_bin 10000 4 4 [(0, 0), (0, - 8), (0, 0)] [(0, 0), (0, 8), (0, 0)] 1
            (\<lparr>measuredPhaseSkewDeg = 0, measuredPhaseSkewSec = Finite 0, measuredFreq = 0\<rparr>, []))
       = ChnlExp_estimate (10000 / real_of_int 4)
           [(0, 0), (0, - 8), (0, 0)] [(0, 0), (0, 8), (0, 0)] (int 1)"
proof -
  note inst = C4_both_variants_pre_normalization [of "[(0, 0), (0, - 8), (0, 0)]" "[(0, 0), (0, 8), (0, 0)]" 10000 4
      "[\<lparr>row_freq = 0, row_dsaMagnitude = 0, row_dsaAmplitude = 0,
             row_mioMagnitude = 0, row_mioAmplitude = 0\<rparr>,
           \<lparr>row_freq = 2500, row_dsaMagnitude = 8, row_dsaAmplitude = 4,
             row_mioMagnitude = 8, row_mioAmplitude = 4\<rparr>,
           \<lparr>row_freq = 5000, row_dsaMagnitude = 0, row_dsaAmplitude = 0,
             row_mioMagnitude = 0, row_mioAmplitude = 0\<rparr>]"
      "\<lparr>measuredPhaseSkewDeg =
             NormalizePhaseAngleDifference (phase_deg (0, - 8) - phase_deg (0, 8)),
           measuredPhaseSkewSec =
             Finite ((phase_deg (0, - 8) - phase_deg (0, 8)) / 360 * (1 / 2500)),
           measuredFreq = 2500\<rparr>"
      "\<lparr>measuredPhaseSkewDeg = 0, measuredPhaseSkewSec = Finite 0, measuredFreq = 0\<rparr>"
      "\<lparr>measuredPhaseSkewDeg = 0, measuredPhaseSkewSec = Finite 0, measuredFreq = 0\<rparr>"
      "[]" 1 4
      "(\<lparr>measuredPhaseSkewDeg = 0, measuredPhaseSkewSec = Finite 0, measuredFreq = 0\<rparr>, [])"]
  have gate: "5 \<le> magnitude ([(0, 0), (0, - 8), (0, 0)] ! 1)
      \<and> 5 \<le> magnitude ([(0, 0), (0, 8), (0, 0)] ! 1)"
    by (simp add: magnitude_imag)
  from inst ChnlExp_run_half_turn
  have "\<exists>k<nat (long_long_to_int 4 sdiv 2 + 1).
         (2500::real) = real k * (10000 / real_of_int 4)
       \<and> Finite ((phase_deg (0, - 8) - phase_deg (0, 8)) / 360 * (1 / 2500)) =
           spec_phaseSkewSec_pre_normalization
             ([(0, 0), (0, - 8), (0, 0)] ! k) ([(0, 0), (0, 8), (0, 0)] ! k)
             (real k * (10000 / real_of_int 4))"
    by (simp only: simp_thms measurement.simps) blast
  moreover from inst gate
  have "fst (RefClk_bin 10000 4 4 [(0, 0), (0, - 8), (0, 0)] [(0, 0), (0, 8), (0, 0)] 1
            (\<lparr>measuredPhaseSkewDeg = 0, measuredPhaseSkewSec = Finite 0, measuredFreq = 0\<rparr>, []))
       = ChnlExp_estimate (10000 / real_of_int 4)
           [(0, 0), (0, - 8), (0, 0)] [(0, 0), (0, 8), (0, 0)] (int 1)"
    by blast
  ultimately show ?thesis
    using ChnlExp_run_half_turn gate by blast
qed

section \<open>The spectrum and the CSV report\<close>

text \<open>
  C6, as stated, at \<open>N = 2^32 + 2\<close> on two silent chunks of that length:
  \<^verbatim>\<open>int n = sampsPerChan\<close> gives \<open>n = 2\<close>, the transform stage produces spectra
  of \<open>2\<close> bins and not \<open>N/2 + 1\<close>, and bin 1 is assigned \<open>sampleRate / N\<close>,
  which is not \<open>sampleRate / n\<close> either: the length follows the converted
  \<^verbatim>\<open>n\<close>, the frequency the unconverted \<^verbatim>\<open>sampsPerChan\<close>.
\<close>

theorem C6_counterexample:
  "length (replicate 4294967298 0) = nat 4294967298
   \<and> long_long_to_int 4294967298 = 2
   \<and> DFT_transform forward_dft (replicate 4294967298 0) (replicate 4294967298 0) 4294967298 =
       Inr ([(0, 0), (0, 0)], [(0, 0), (0, 0)])
   \<and> length [(0::real, 0::real), (0, 0)] \<noteq> nat (4294967298 div 2 + 1)
   \<and> ChnlExp_DFT_of_chunks forward_dft (replicate 4294967298 0) (replicate 4294967298 0) 10000 4294967298 =
     Inr ([\<lparr>row_freq = 0, row_dsaMagnitude = 0, row_dsaAmplitude = 0,
             row_mioMagnitude = 0, row_mioAmplitude = 0\<rparr>,
           \<lparr>row_freq = 10000 / 4294967298, row_dsaMagnitude = 0, row_dsaAmplitude = 0,
             row_mioMagnitude = 0, row_mioAmplitude = 0\<rparr>],
          \<lparr>measuredPhaseSkewDeg = 0, measuredPhaseSkewSec = Finite 0,
           measuredFreq = 10000 / 4294967298\<rparr>)
   \<and> (10000 / 4294967298 :: real) \<noteq> real 1 * 10000 / real_of_int 2"
  by (simp add: ChnlExp_DFT_of_chunks_def transform_run_wrapped_silence ChnlExp_run_wrapped
      sizes_wrapped)

text \<open>
  C6, amended: for every positive chunk length \<open>N\<close> that fits an \<^verbatim>\<open>int\<close>
  (\<open>N \<le> 2^31 - 1\<close>), and two chunks of \<open>N\<close> samples, the transform stage of
  \<^verbatim>\<open>DFT\<close> produces for each channel a one-sided spectrum of length exactly
  \<open>\<lfloor>N/2\<rfloor> + 1\<close> (bin \<open>i\<close> holding what FFTW computes for bin \<open>i\<close> of the chunk), and
  both files assign bin \<open>i\<close> of that spectrum the frequency
  \<open>i * sampleRate / N\<close>: line \<open>i\<close> of the report, which has \<open>\<lfloor>N/2\<rfloor> + 1\<close> lines,
  carries that frequency next to the magnitudes of bin \<open>i\<close>. (RefClkSync.c always
  completes the report; ChnlExpSync.c does whenever the channel-A magnitudes
  fit an \<^verbatim>\<open>int\<close>.)
\<close>

theorem C6_spectrum_length_and_bin_frequency:
  assumes "0 < N" and "N \<le> INT_MAX" and "length dsaData = nat N" and "length mioData = nat N"
  shows "\<exists>dsaOutput mioOutput.
           DFT_transform r2c dsaData mioData N = Inr (dsaOutput, mioOutput)
         \<and> length dsaOutput = nat (N div 2 + 1) \<and> length mioOutput = nat (N div 2 + 1)
         \<and> (\<forall>i<nat (N div 2 + 1). dsaOutput ! i = r2c (nat N) dsaData i
                 \<and> mioOutput ! i = r2c (nat N) mioData i)
         \<and> (\<exists>outs rows.
                RefClk_DFT_of_chunks r2c dsaData mioData sampleRate N outs0 = Inr (outs, rows)
              \<and> length rows = nat (N div 2 + 1)
              \<and> (\<forall>i<nat (N div 2 + 1).
                    row_freq (rows ! i) = real i * sampleRate / real_of_int N
                    \<and> row_dsaMagnitude (rows ! i) = magnitude (dsaOutput ! i)
                    \<and> row_mioMagnitude (rows ! i) = magnitude (mioOutput ! i)))
         \<and> (\<forall>rows m.
                ChnlExp_DFT_of_chunks r2c dsaData mioData sampleRate N = Inr (rows, m) \<longrightarrow>
                length rows = nat (N div 2 + 1)
                \<and> (\<forall>i<nat (N div 2 + 1).
                      row_freq (rows ! i) = real i * sampleRate / real_of_int N
                    \<and> row_dsaMagnitude (rows ! i) = magnitude (dsaOutput ! i)
                    \<and> row_mioMagnitude (rows ! i) = magnitude (mioOutput ! i)))
         \<and> ((\<forall>i<nat (N div 2 + 1). magnitude (dsaOutput ! i) < 2147483648) \<longrightarrow>
                (\<exists>rows m.
                   ChnlExp_DFT_of_chunks r2c dsaData mioData sampleRate N = Inr (rows, m)))"
proof -
  let ?A = "map (r2c (nat N) dsaData) [0..<nat (N div 2 + 1)]"
  let ?B = "map (r2c (nat N) mioData) [0..<nat (N div 2 + 1)]"
  have tr: "DFT_transform r2c dsaData mioData N = Inr (?A, ?B)"
    using assms by (rule DFT_transform_chunk)
  have ref: "\<exists>outs rows.
                RefClk_DFT_of_chunks r2c dsaData mioData sampleRate N outs0 = Inr (outs, rows)
              \<and> length rows = nat (N div 2 + 1)
              \<and> (\<forall>i<nat (N div 2 + 1).
                    row_freq (rows ! i) = real i * sampleRate / real_of_int N
                    \<and> row_dsaMagnitude (rows ! i) = magnitude (?A ! i)
                    \<and> row_mioMagnitude (rows ! i) = magnitude (?B ! i))"
  proof -
    from RefClk_chunks_rows [OF assms(1,2) tr, of sampleRate outs0]
    obtain outs rows where
      r: "RefClk_DFT_of_chunks r2c dsaData mioData sampleRate N outs0 = Inr (outs, rows)"
      and l: "length rows = nat (N div 2 + 1)"
      and c: "\<forall>i<nat (N div 2 + 1). rows ! i =
              \<lparr>row_freq = real i * (sampleRate / real_of_int N),
               row_dsaMagnitude = magnitude (?A ! i),
               row_dsaAmplitude = magnitude (?A ! i) * 2 / real_of_int N,
               row_mioMagnitude = magnitude (?B ! i),
               row_mioAmplitude = magnitude (?B ! i) * 2 / real_of_int N\<rparr>"
      by blast
    from c have "\<forall>i<nat (N div 2 + 1).
                    row_freq (rows ! i) = real i * sampleRate / real_of_int N
                    \<and> row_dsaMagnitude (rows ! i) = magnitude (?A ! i)
                    \<and> row_mioMagnitude (rows ! i) = magnitude (?B ! i)"
      by simp
    with r l show ?thesis by blast
  qed
  have chn: "length rows = nat (N div 2 + 1)
                \<and> (\<forall>i<nat (N div 2 + 1).
                      row_freq (rows ! i) = real i * sampleRate / real_of_int N
                    \<and> row_dsaMagnitude (rows ! i) = magnitude (?A ! i)
                    \<and> row_mioMagnitude (rows ! i) = magnitude (?B ! i))"
    if "ChnlExp_DFT_of_chunks r2c dsaData mioData sampleRate N = Inr (rows, m)" for rows m
    using ChnlExp_chunks_rows [OF assms(1,2) tr that] by simp
  have tot: "\<exists>rows m. ChnlExp_DFT_of_chunks r2c dsaData mioData sampleRate N = Inr (rows, m)"
    if "\<forall>i<nat (N div 2 + 1). magnitude (?A ! i) < 2147483648"
    using that by (rule ChnlExp_chunks_total [OF assms(1,2) tr])
  have len: "length ?A = nat (N div 2 + 1)" "length ?B = nat (N div 2 + 1)" by simp_all
  have nth: "\<forall>i<nat (N div 2 + 1). ?A ! i = r2c (nat N) dsaData i \<and> ?B ! i = r2c (nat N) mioData i"
    by simp
  show ?thesis
    using tr len nth ref chn tot
    by - (rule exI [of _ ?A], rule exI [of _ ?B], blast)
qed

text \<open>The amended C6 at \<open>N = 4\<close>, on the impulse.\<close>

theorem C6_spectrum_length_and_bin_frequency_witness:
  "(0::int) < 4 \<and> (4::int) \<le> INT_MAX \<and> length [8, 0, 0, 0 :: real] = nat 4
   \<and> (\<exists>dsaOutput mioOutput.
         DFT_transform forward_dft [8, 0, 0, 0] [8, 0, 0, 0] 4 = Inr (dsaOutput, mioOutput)
       \<and> length dsaOutput = 3 \<and> length mioOutput = 3
       \<and> (\<exists>outs rows.
              RefClk_DFT_of_chunks forward_dft [8, 0, 0, 0] [8, 0, 0, 0] 10000 4
                \<lparr>measuredPhaseSkewDeg = 0, measuredPhaseSkewSec = Finite 0, measuredFreq = 0\<rparr> = Inr (outs, rows)
            \<and> length rows = 3 \<and> row_freq (rows ! 2) = 5000)
       \<and> (\<exists>rows m.
              ChnlExp_DFT_of_chunks forward_dft [8, 0, 0, 0] [8, 0, 0, 0] 10000 4 = Inr (rows, m)
            \<and> length rows = 3 \<and> row_freq (rows ! 2) = 5000))"
proof -
  have h: "(0::int) < 4" "(4::int) \<le> INT_MAX" "length [8, 0, 0, 0 :: real] = nat 4"
    by (simp_all add: INT_MAX_def)
  from C6_spectrum_length_and_bin_frequency [OF h h(3), of forward_dft 10000
      "\<lparr>measuredPhaseSkewDeg = 0, measuredPhaseSkewSec = Finite 0, measuredFreq = 0\<rparr>"]
  obtain dsaOutput mioOutput where
    tr: "DFT_transform forward_dft [8, 0, 0, 0] [8, 0, 0, 0] 4 = Inr (dsaOutput, mioOutput)"
    and len: "length dsaOutput = nat (4 div 2 + 1)" "length mioOutput = nat (4 div 2 + 1)"
    and ref: "\<exists>outs rows.
              RefClk_DFT_of_chunks forward_dft [8, 0, 0, 0] [8, 0, 0, 0] 10000 4
                \<lparr>measuredPhaseSkewDeg = 0, measuredPhaseSkewSec = Finite 0, measuredFreq = 0\<rparr> = Inr (outs, rows)
            \<and> length rows = nat (4 div 2 + 1)
            \<and> (\<forall>i<nat (4 div 2 + 1).
                  row_freq (rows ! i) = real i * 10000 / real_of_int 4
                \<and> row_dsaMagnitude (rows ! i) = magnitude (dsaOutput ! i)
                \<and> row_mioMagnitude (rows ! i) = magnitude (mioOutput ! i))"
    and chn: "\<forall>rows m.
              ChnlExp_DFT_of_chunks forward_dft [8, 0, 0, 0] [8, 0, 0, 0] 10000 4 = Inr (rows, m) \<longrightarrow>
              length rows = nat (4 div 2 + 1)
              \<and> (\<forall>i<nat (4 div 2 + 1).
                    row_freq (rows ! i) = real i * 10000 / real_of_int 4
                  \<and> row_dsaMagnitude (rows ! i) = magnitude (dsaOutput ! i)
                  \<and> row_mioMagnitude (rows ! i) = magnitude (mioOutput ! i))"
    by blast
  have run: "ChnlExp_DFT_of_chunks forward_dft [8, 0, 0, 0] [8, 0, 0, 0] 10000 4 =
     Inr ([\<lparr>row_freq = 0, row_dsaMagnitude = 8, row_dsaAmplitude = 4,
             row_mioMagnitude = 8, row_mioAmplitude = 4\<rparr>,
           \<lparr>row_freq = 2500, row_dsaMagnitude = 8, row_dsaAmplitude = 4,
             row_mioMagnitude = 8, row_mioAmplitude = 4\<rparr>,
           \<lparr>row_freq = 5000, row_dsaMagnitude = 8, row_dsaAmplitude = 4,
             row_mioMagnitude = 8, row_mioAmplitude = 4\<rparr>],
          \<lparr>measuredPhaseSkewDeg = 0, measuredPhaseSkewSec = Finite 0, measuredFreq = 5000\<rparr>)"
    by (simp add: ChnlExp_DFT_of_chunks_def transform_run_impulse ChnlExp_run_impulse)
  from ref have ref': "\<exists>outs rows.
              RefClk_DFT_of_chunks forward_dft [8, 0, 0, 0] [8, 0, 0, 0] 10000 4
                \<lparr>measuredPhaseSkewDeg = 0, measuredPhaseSkewSec = Finite 0, measuredFreq = 0\<rparr> = Inr (outs, rows)
            \<and> length rows = 3 \<and> row_freq (rows ! 2) = 5000"
    by auto
  from chn run have chn': "\<exists>rows m.
              ChnlExp_DFT_of_chunks forward_dft [8, 0, 0, 0] [8, 0, 0, 0] 10000 4 = Inr (rows, m)
            \<and> length rows = 3 \<and> row_freq (rows ! 2) = 5000"
    by simp
  from len have "length dsaOutput = 3" "length mioOutput = 3" by simp_all
  with tr ref' chn' h show ?thesis by blast
qed

text \<open>
  C8, as stated, at \<open>N = 2^32 + 2\<close> on two chunks of that length holding an
  impulse of 8 V: \<^verbatim>\<open>DFT\<close> divides by the converted \<open>n = 2\<close>, so every line of
  the report of both files has magnitude 8 and amplitude \<open>8 * 2 / 2 = 8\<close>,
  not \<open>8 * 2 / N\<close>.
\<close>

theorem C8_counterexample:
  "length (8 # replicate 4294967297 0) = nat 4294967298
   \<and> RefClk_DFT_of_chunks forward_dft (8 # replicate 4294967297 0) (8 # replicate 4294967297 0) 10000 4294967298
       \<lparr>measuredPhaseSkewDeg = 0, measuredPhaseSkewSec = Finite 0, measuredFreq = 0\<rparr> =
     Inr (\<lparr>measuredPhaseSkewDeg = 0, measuredPhaseSkewSec = Finite 0,
           measuredFreq = 10000 / 4294967298\<rparr>,
          [\<lparr>row_freq = 0, row_dsaMagnitude = 8, row_dsaAmplitude = 8,
             row_mioMagnitude = 8, row_mioAmplitude = 8\<rparr>,
           \<lparr>row_freq = 10000 / 4294967298, row_dsaMagnitude = 8, row_dsaAmplitude = 8,
             row_mioMagnitude = 8, row_mioAmplitude = 8\<rparr>])
   \<and> ChnlExp_DFT_of_chunks forward_dft (8 # replicate 4294967297 0) (8 # replicate 4294967297 0) 10000 4294967298 =
     Inr ([\<lparr>row_freq = 0, row_dsaMagnitude = 8, row_dsaAmplitude = 8,
             row_mioMagnitude = 8, row_mioAmplitude = 8\<rparr>,
           \<lparr>row_freq = 10000 / 4294967298, row_dsaMagnitude = 8, row_dsaAmplitude = 8,
             row_mioMagnitude = 8, row_mioAmplitude = 8\<rparr>],
          \<lparr>measuredPhaseSkewDeg = 0, measuredPhaseSkewSec = Finite 0,
           measuredFreq = 10000 / 4294967298\<rparr>)
   \<and> (8::real) \<noteq> 8 * 2 / real_of_int 4294967298"
  by (simp add: RefClk_DFT_of_chunks_def ChnlExp_DFT_of_chunks_def transform_run_wrapped_impulse
      RefClk_run_wrapped_impulse ChnlExp_run_wrapped_impulse)

text \<open>
  C8, amended: for every positive chunk length \<open>N\<close> that fits an \<^verbatim>\<open>int\<close>
  (\<open>N \<le> 2^31 - 1\<close>), and two chunks of \<open>N\<close> samples, the report of both files
  has \<open>\<lfloor>N/2\<rfloor> + 1\<close> lines, and every line \<open>i\<close>, the DC line \<open>i = 0\<close> and the last
  line \<open>i = \<lfloor>N/2\<rfloor>\<close> (the Nyquist bin when \<open>N\<close> is even) included, holds the
  magnitude \<open>sqrt(re^2 + im^2)\<close> of bin \<open>i\<close> of the spectrum and the amplitude
  \<open>magnitude * 2 / N\<close>, with no exception. (RefClkSync.c always completes the
  report; ChnlExpSync.c does whenever the channel-A magnitudes fit an \<^verbatim>\<open>int\<close>.)
\<close>

theorem C8_uniform_amplitude_scaling:
  assumes "0 < N" and "N \<le> INT_MAX" and "length dsaData = nat N" and "length mioData = nat N"
  shows "\<exists>dsaOutput mioOutput.
           DFT_transform r2c dsaData mioData N = Inr (dsaOutput, mioOutput)
         \<and> 0 < nat (N div 2 + 1) \<and> nat (N div 2) < nat (N div 2 + 1)
         \<and> (\<exists>outs rows.
                RefClk_DFT_of_chunks r2c dsaData mioData sampleRate N outs0 = Inr (outs, rows)
              \<and> length rows = nat (N div 2 + 1)
              \<and> (\<forall>i<nat (N div 2 + 1).
                    row_dsaMagnitude (rows ! i)
                      = sqrt (REAL (dsaOutput ! i) * REAL (dsaOutput ! i)
                              + IMAG (dsaOutput ! i) * IMAG (dsaOutput ! i))
                  \<and> row_mioMagnitude (rows ! i)
                      = sqrt (REAL (mioOutput ! i) * REAL (mioOutput ! i)
                              + IMAG (mioOutput ! i) * IMAG (mioOutput ! i))
                  \<and> row_dsaAmplitude (rows ! i)
                      = row_dsaMagnitude (rows ! i) * 2 / real_of_int N
                  \<and> row_mioAmplitude (rows ! i)
                      = row_mioMagnitude (rows ! i) * 2 / real_of_int N))
         \<and> (\<forall>rows m.
                ChnlExp_DFT_of_chunks r2c dsaData mioData sampleRate N = Inr (rows, m) \<longrightarrow>
                length rows = nat (N div 2 + 1)
                \<and> (\<forall>i<nat (N div 2 + 1).
                      row_dsaMagnitude (rows ! i)
                        = sqrt (REAL (dsaOutput ! i) * REAL (dsaOutput ! i)
                                + IMAG (dsaOutput ! i) * IMAG (dsaOutput ! i))
                    \<and> row_mioMagnitude (rows ! i)
                        = sqrt (REAL (mioOutput ! i) * REAL (mioOutput ! i)
                                + IMAG (mioOutput ! i) * IMAG (mioOutput ! i))
                    \<and> row_dsaAmplitude (rows ! i)
                        = row_dsaMagnitude (rows ! i) * 2 / real_of_int N
                    \<and> row_mioAmplitude (rows ! i)
                        = row_mioMagnitude (rows ! i) * 2 / real_of_int N))
         \<and> ((\<forall>i<nat (N div 2 + 1). magnitude (dsaOutput ! i) < 2147483648) \<longrightarrow>
                (\<exists>rows m.
                   ChnlExp_DFT_of_chunks r2c dsaData mioData sampleRate N = Inr (rows, m)))"
proof -
  let ?A = "map (r2c (nat N) dsaData) [0..<nat (N div 2 + 1)]"
  let ?B = "map (r2c (nat N) mioData) [0..<nat (N div 2 + 1)]"
  have tr: "DFT_transform r2c dsaData mioData N = Inr (?A, ?B)"
    using assms by (rule DFT_transform_chunk)
  from assms(1) have lines: "0 < nat (N div 2 + 1)" "nat (N div 2) < nat (N div 2 + 1)" by simp_all
  have ref: "\<exists>outs rows.
                RefClk_DFT_of_chunks r2c dsaData mioData sampleRate N outs0 = Inr (outs, rows)
              \<and> length rows = nat (N div 2 + 1)
              \<and> (\<forall>i<nat (N div 2 + 1).
                    row_dsaMagnitude (rows ! i)
                      = sqrt (REAL (?A ! i) * REAL (?A ! i) + IMAG (?A ! i) * IMAG (?A ! i))
                  \<and> row_mioMagnitude (rows ! i)
                      = sqrt (REAL (?B ! i) * REAL (?B ! i) + IMAG (?B ! i) * IMAG (?B ! i))
                  \<and> row_dsaAmplitude (rows ! i)
                      = row_dsaMagnitude (rows ! i) * 2 / real_of_int N
                  \<and> row_mioAmplitude (rows ! i)
                      = row_mioMagnitude (rows ! i) * 2 / real_of_int N)"
  proof -
    from RefClk_chunks_rows [OF assms(1,2) tr, of sampleRate outs0]
    obtain outs rows where
      r: "RefClk_DFT_of_chunks r2c dsaData mioData sampleRate N outs0 = Inr (outs, rows)"
      and l: "length rows = nat (N div 2 + 1)"
      and c: "\<forall>i<nat (N div 2 + 1). rows ! i =
              \<lparr>row_freq = real i * (sampleRate / real_of_int N),
               row_dsaMagnitude = magnitude (?A ! i),
               row_dsaAmplitude = magnitude (?A ! i) * 2 / real_of_int N,
               row_mioMagnitude = magnitude (?B ! i),
               row_mioAmplitude = magnitude (?B ! i) * 2 / real_of_int N\<rparr>"
      by blast
    from c have "\<forall>i<nat (N div 2 + 1).
                    row_dsaMagnitude (rows ! i)
                      = sqrt (REAL (?A ! i) * REAL (?A ! i) + IMAG (?A ! i) * IMAG (?A ! i))
                  \<and> row_mioMagnitude (rows ! i)
                      = sqrt (REAL (?B ! i) * REAL (?B ! i) + IMAG (?B ! i) * IMAG (?B ! i))
                  \<and> row_dsaAmplitude (rows ! i)
                      = row_dsaMagnitude (rows ! i) * 2 / real_of_int N
                  \<and> row_mioAmplitude (rows ! i)
                      = row_mioMagnitude (rows ! i) * 2 / real_of_int N"
      by (simp add: magnitude_def)
    with r l show ?thesis by blast
  qed
  have chn: "length rows = nat (N div 2 + 1)
                \<and> (\<forall>i<nat (N div 2 + 1).
                      row_dsaMagnitude (rows ! i)
                        = sqrt (REAL (?A ! i) * REAL (?A ! i) + IMAG (?A ! i) * IMAG (?A ! i))
                    \<and> row_mioMagnitude (rows ! i)
                        = sqrt (REAL (?B ! i) * REAL (?B ! i) + IMAG (?B ! i) * IMAG (?B ! i))
                    \<and> row_dsaAmplitude (rows ! i)
                        = row_dsaMagnitude (rows ! i) * 2 / real_of_int N
                    \<and> row_mioAmplitude (rows ! i)
                        = row_mioMagnitude (rows ! i) * 2 / real_of_int N)"
    if "ChnlExp_DFT_of_chunks r2c dsaData mioData sampleRate N = Inr (rows, m)" for rows m
    using ChnlExp_chunks_rows [OF assms(1,2) tr that] by (simp add: magnitude_def)
  have tot: "\<exists>rows m. ChnlExp_DFT_of_chunks r2c dsaData mioData sampleRate N = Inr (rows, m)"
    if "\<forall>i<nat (N div 2 + 1). magnitude (?A ! i) < 2147483648"
    using that by (rule ChnlExp_chunks_total [OF assms(1,2) tr])
  show ?thesis
    using tr lines ref chn tot
    by - (rule exI [of _ ?A], rule exI [of _ ?B], blast)
qed

text \<open>
  The amended C8 at \<open>N = 4\<close>, on the impulse: in both files every line has
  magnitude 8 and amplitude \<open>8 * 2 / 4 = 4\<close>.
\<close>

theorem C8_uniform_amplitude_scaling_witness:
  "(0::int) < 4 \<and> (4::int) \<le> INT_MAX \<and> length [8, 0, 0, 0 :: real] = nat 4
   \<and> RefClk_DFT_of_chunks forward_dft [8, 0, 0, 0] [8, 0, 0, 0] 10000 4
       \<lparr>measuredPhaseSkewDeg = 0, measuredPhaseSkewSec = Finite 0, measuredFreq = 0\<rparr> =
     Inr (\<lparr>measuredPhaseSkewDeg = 0, measuredPhaseSkewSec = Finite 0, measuredFreq = 5000\<rparr>,
          [\<lparr>row_freq = 0, row_dsaMagnitude = 8, row_dsaAmplitude = 4,
             row_mioMagnitude = 8, row_mioAmplitude = 4\<rparr>,
           \<lparr>row_freq = 2500, row_dsaMagnitude = 8, row_dsaAmplitude = 4,
             row_mioMagnitude = 8, row_mioAmplitude = 4\<rparr>,
           \<lparr>row_freq = 5000, row_dsaMagnitude = 8, row_dsaAmplitude = 4,
             row_mioMagnitude = 8, row_mioAmplitude = 4\<rparr>])
   \<and> ChnlExp_DFT_of_chunks forward_dft [8, 0, 0, 0] [8, 0, 0, 0] 10000 4 =
     Inr ([\<lparr>row_freq = 0, row_dsaMagnitude = 8, row_dsaAmplitude = 4,
             row_mioMagnitude = 8, row_mioAmplitude = 4\<rparr>,
           \<lparr>row_freq = 2500, row_dsaMagnitude = 8, row_dsaAmplitude = 4,
             row_mioMagnitude = 8, row_mioAmplitude = 4\<rparr>,
           \<lparr>row_freq = 5000, row_dsaMagnitude = 8, row_dsaAmplitude = 4,
             row_mioMagnitude = 8, row_mioAmplitude = 4\<rparr>],
          \<lparr>measuredPhaseSkewDeg = 0, measuredPhaseSkewSec = Finite 0, measuredFreq = 5000\<rparr>)
   \<and> (\<exists>outs rows.
         RefClk_DFT_of_chunks forward_dft [8, 0, 0, 0] [8, 0, 0, 0] 10000 4
           \<lparr>measuredPhaseSkewDeg = 0, measuredPhaseSkewSec = Finite 0, measuredFreq = 0\<rparr> = Inr (outs, rows)
       \<and> length rows = 3
       \<and> row_dsaAmplitude (rows ! 0) = row_dsaMagnitude (rows ! 0) * 2 / real_of_int 4
       \<and> row_mioAmplitude (rows ! 2) = row_mioMagnitude (rows ! 2) * 2 / real_of_int 4)
   \<and> (\<exists>rows m.
         ChnlExp_DFT_of_chunks forward_dft [8, 0, 0, 0] [8, 0, 0, 0] 10000 4 = Inr (rows, m)
       \<and> length rows = 3
       \<and> row_dsaAmplitude (rows ! 0) = row_dsaMagnitude (rows ! 0) * 2 / real_of_int 4
       \<and> row_mioAmplitude (rows ! 2) = row_mioMagnitude (rows ! 2) * 2 / real_of_int 4)"
proof -
  have h: "(0::int) < 4" "(4::int) \<le> INT_MAX" "length [8, 0, 0, 0 :: real] = nat 4"
    by (simp_all add: INT_MAX_def)
  have runR: "RefClk_DFT_of_chunks forward_dft [8, 0, 0, 0] [8, 0, 0, 0] 10000 4
       \<lparr>measuredPhaseSkewDeg = 0, measuredPhaseSkewSec = Finite 0, measuredFreq = 0\<rparr> =
     Inr (\<lparr>measuredPhaseSkewDeg = 0, measuredPhaseSkewSec = Finite 0, measuredFreq = 5000\<rparr>,
          [\<lparr>row_freq = 0, row_dsaMagnitude = 8, row_dsaAmplitude = 4,
             row_mioMagnitude = 8, row_mioAmplitude = 4\<rparr>,
           \<lparr>row_freq = 2500, row_dsaMagnitude = 8, row_dsaAmplitude = 4,
             row_mioMagnitude = 8, row_mioAmplitude = 4\<rparr>,
           \<lparr>row_freq = 5000, row_dsaMagnitude = 8, row_dsaAmplitude = 4,
             row_mioMagnitude = 8, row_mioAmplitude = 4\<rparr>])"
    by (simp add: RefClk_DFT_of_chunks_def transform_run_impulse RefClk_run_impulse)
  have runC: "ChnlExp_DFT_of_chunks forward_dft [8, 0, 0, 0] [8, 0, 0, 0] 10000 4 =
     Inr ([\<lparr>row_freq = 0, row_dsaMagnitude = 8, row_dsaAmplitude = 4,
             row_mioMagnitude = 8, row_mioAmplitude = 4\<rparr>,
           \<lparr>row_freq = 2500, row_dsaMagnitude = 8, row_dsaAmplitude = 4,
             row_mioMagnitude = 8, row_mioAmplitude = 4\<rparr>,
           \<lparr>row_freq = 5000, row_dsaMagnitude = 8, row_dsaAmplitude = 4,
             row_mioMagnitude = 8, row_mioAmplitude = 4\<rparr>],
          \<lparr>measuredPhaseSkewDeg = 0, measuredPhaseSkewSec = Finite 0, measuredFreq = 5000\<rparr>)"
    by (simp add: ChnlExp_DFT_of_chunks_def transform_run_impulse ChnlExp_run_impulse)
  from C8_uniform_amplitude_scaling [OF h h(3), of forward_dft 10000
      "\<lparr>measuredPhaseSkewDeg = 0, measuredPhaseSkewSec = Finite 0, measuredFreq = 0\<rparr>"]
  obtain dsaOutput mioOutput where
    ref: "\<exists>outs rows.
         RefClk_DFT_of_chunks forward_dft [8, 0, 0, 0] [8, 0, 0, 0] 10000 4
           \<lparr>measuredPhaseSkewDeg = 0, measuredPhaseSkewSec = Finite 0, measuredFreq = 0\<rparr> = Inr (outs, rows)
       \<and> length rows = nat (4 div 2 + 1)
       \<and> (\<forall>i<nat (4 div 2 + 1).
              row_dsaMagnitude (rows ! i)
                = sqrt (REAL (dsaOutput ! i) * REAL (dsaOutput ! i)
                        + IMAG (dsaOutput ! i) * IMAG (dsaOutput ! i))
            \<and> row_mioMagnitude (rows ! i)
                = sqrt (REAL (mioOutput ! i) * REAL (mioOutput ! i)
                        + IMAG (mioOutput ! i) * IMAG (mioOutput ! i))
            \<and> row_dsaAmplitude (rows ! i) = row_dsaMagnitude (rows ! i) * 2 / real_of_int 4
            \<and> row_mioAmplitude (rows ! i) = row_mioMagnitude (rows ! i) * 2 / real_of_int 4)"
    and chn: "\<forall>rows m.
         ChnlExp_DFT_of_chunks forward_dft [8, 0, 0, 0] [8, 0, 0, 0] 10000 4 = Inr (rows, m) \<longrightarrow>
         length rows = nat (4 div 2 + 1)
         \<and> (\<forall>i<nat (4 div 2 + 1).
              row_dsaMagnitude (rows ! i)
                = sqrt (REAL (dsaOutput ! i) * REAL (dsaOutput ! i)
                        + IMAG (dsaOutput ! i) * IMAG (dsaOutput ! i))
            \<and> row_mioMagnitude (rows ! i)
                = sqrt (REAL (mioOutput ! i) * REAL (mioOutput ! i)
                        + IMAG (mioOutput ! i) * IMAG (mioOutput ! i))
            \<and> row_dsaAmplitude (rows ! i) = row_dsaMagnitude (rows ! i) * 2 / real_of_int 4
            \<and> row_mioAmplitude (rows ! i) = row_mioMagnitude (rows ! i) * 2 / real_of_int 4)"
    by blast
  from ref have ref': "\<exists>outs rows.
         RefClk_DFT_of_chunks forward_dft [8, 0, 0, 0] [8, 0, 0, 0] 10000 4
           \<lparr>measuredPhaseSkewDeg = 0, measuredPhaseSkewSec = Finite 0, measuredFreq = 0\<rparr> = Inr (outs, rows)
       \<and> length rows = 3
       \<and> row_dsaAmplitude (rows ! 0) = row_dsaMagnitude (rows ! 0) * 2 / real_of_int 4
       \<and> row_mioAmplitude (rows ! 2) = row_mioMagnitude (rows ! 2) * 2 / real_of_int 4"
    by auto
  from chn runC have chn': "\<exists>rows m.
         ChnlExp_DFT_of_chunks forward_dft [8, 0, 0, 0] [8, 0, 0, 0] 10000 4 = Inr (rows, m)
       \<and> length rows = 3
       \<and> row_dsaAmplitude (rows ! 0) = row_dsaMagnitude (rows ! 0) * 2 / real_of_int 4
       \<and> row_mioAmplitude (rows ! 2) = row_mioMagnitude (rows ! 2) * 2 / real_of_int 4"
    by simp
  from runR runC ref' chn' h show ?thesis by blast
qed


section \<open>The outputs of RefClkSync.c\<close>

text \<open>
  C10: \<^verbatim>\<open>DFT\<close> of RefClkSync.c assigns its three outputs inside the gate
  \<^verbatim>\<open>dsaMagnitude >= 5 && mioMagnitude >= 5\<close> only. When no bin passes the gate
  the three outputs are what they were at the call, so \<^verbatim>\<open>EveryNCallback\<close>
  prints its initial zeros; when bins pass, the outputs are the triple of the
  last (highest-index) bin that passed.
\<close>

theorem C10_outputs_written_only_in_gate:
  assumes "0 < long_long_to_int sampsPerChan"
  shows "(\<exists>outs rows.
            RefClk_DFT dsaOutput mioOutput sampleRate sampsPerChan outs0 = Inr (outs, rows)
          \<and> ((\<forall>i<nat (long_long_to_int sampsPerChan sdiv 2 + 1).
                  \<not> (5 \<le> magnitude (dsaOutput ! i) \<and> 5 \<le> magnitude (mioOutput ! i)))
               \<longrightarrow> outs = outs0)
          \<and> (\<forall>j<nat (long_long_to_int sampsPerChan sdiv 2 + 1).
                5 \<le> magnitude (dsaOutput ! j) \<and> 5 \<le> magnitude (mioOutput ! j)
                \<and> (\<forall>i. j < i \<and> i < nat (long_long_to_int sampsPerChan sdiv 2 + 1) \<longrightarrow>
                       \<not> (5 \<le> magnitude (dsaOutput ! i) \<and> 5 \<le> magnitude (mioOutput ! i)))
                \<longrightarrow> outs =
                  \<lparr>measuredPhaseSkewDeg =
                      NormalizePhaseAngleDifference
                        (phase_deg (dsaOutput ! j) - phase_deg (mioOutput ! j)),
                    measuredPhaseSkewSec =
                      mult_double ((phase_deg (dsaOutput ! j) - phase_deg (mioOutput ! j)) / 360)
                        (div_double 1 (real j * (sampleRate / real_of_int sampsPerChan))),
                    measuredFreq = real j * (sampleRate / real_of_int sampsPerChan)\<rparr>))
       \<and> ((\<forall>i<501. \<not> (5 \<le> magnitude (dsaOutput ! i) \<and> 5 \<le> magnitude (mioOutput ! i)))
            \<longrightarrow> RefClk_EveryNCallback dsaOutput mioOutput =
                  Inr \<lparr>measuredPhaseSkewDeg = 0, measuredPhaseSkewSec = Finite 0,
                       measuredFreq = 0\<rparr>)"
proof (rule conjI)
  let ?nc = "nat (long_long_to_int sampsPerChan sdiv 2 + 1)"
  let ?r = "RefClk_loop sampleRate sampsPerChan (long_long_to_int sampsPerChan)
              dsaOutput mioOutput ?nc (outs0, [])"
  have eq: "RefClk_DFT dsaOutput mioOutput sampleRate sampsPerChan outs0 = Inr (fst ?r, snd ?r)"
    using assms by (simp add: RefClk_DFT_def Let_def)
  have frame: "fst ?r = outs0"
    if "\<forall>i<?nc. \<not> (5 \<le> magnitude (dsaOutput ! i) \<and> 5 \<le> magnitude (mioOutput ! i))"
    using RefClk_loop_frame [of 0 ?nc dsaOutput mioOutput sampleRate sampsPerChan
        "long_long_to_int sampsPerChan" "(outs0, [])"] that
    by simp
  have last: "fst ?r =
        \<lparr>measuredPhaseSkewDeg =
            NormalizePhaseAngleDifference (phase_deg (dsaOutput ! j) - phase_deg (mioOutput ! j)),
          measuredPhaseSkewSec =
            mult_double ((phase_deg (dsaOutput ! j) - phase_deg (mioOutput ! j)) / 360)
              (div_double 1 (real j * (sampleRate / real_of_int sampsPerChan))),
          measuredFreq = real j * (sampleRate / real_of_int sampsPerChan)\<rparr>"
    if "j < ?nc" "5 \<le> magnitude (dsaOutput ! j)" "5 \<le> magnitude (mioOutput ! j)"
      "\<forall>i. j < i \<and> i < ?nc \<longrightarrow>
         \<not> (5 \<le> magnitude (dsaOutput ! i) \<and> 5 \<le> magnitude (mioOutput ! i))" for j
    using that by (rule RefClk_loop_last)
  show "\<exists>outs rows.
            RefClk_DFT dsaOutput mioOutput sampleRate sampsPerChan outs0 = Inr (outs, rows)
          \<and> ((\<forall>i<?nc. \<not> (5 \<le> magnitude (dsaOutput ! i) \<and> 5 \<le> magnitude (mioOutput ! i)))
               \<longrightarrow> outs = outs0)
          \<and> (\<forall>j<?nc.
                5 \<le> magnitude (dsaOutput ! j) \<and> 5 \<le> magnitude (mioOutput ! j)
                \<and> (\<forall>i. j < i \<and> i < ?nc \<longrightarrow>
                       \<not> (5 \<le> magnitude (dsaOutput ! i) \<and> 5 \<le> magnitude (mioOutput ! i)))
                \<longrightarrow> outs =
                  \<lparr>measuredPhaseSkewDeg =
                      NormalizePhaseAngleDifference
                        (phase_deg (dsaOutput ! j) - phase_deg (mioOutput ! j)),
                    measuredPhaseSkewSec =
                      mult_double ((phase_deg (dsaOutput ! j) - phase_deg (mioOutput ! j)) / 360)
                        (div_double 1 (real j * (sampleRate / real_of_int sampsPerChan))),
                    measuredFreq = real j * (sampleRate / real_of_int sampsPerChan)\<rparr>)"
  proof (intro exI conjI)
    show "RefClk_DFT dsaOutput mioOutput sampleRate sampsPerChan outs0 = Inr (fst ?r, snd ?r)"
      by (fact eq)
    show "(\<forall>i<?nc. \<not> (5 \<le> magnitude (dsaOutput ! i) \<and> 5 \<le> magnitude (mioOutput ! i)))
               \<longrightarrow> fst ?r = outs0"
      using frame by blast
    show "\<forall>j<?nc.
                5 \<le> magnitude (dsaOutput ! j) \<and> 5 \<le> magnitude (mioOutput ! j)
                \<and> (\<forall>i. j < i \<and> i < ?nc \<longrightarrow>
                       \<not> (5 \<le> magnitude (dsaOutput ! i) \<and> 5 \<le> magnitude (mioOutput ! i)))
                \<longrightarrow> fst ?r =
                  \<lparr>measuredPhaseSkewDeg =
                      NormalizePhaseAngleDifference
                        (phase_deg (dsaOutput ! j) - phase_deg (mioOutput ! j)),
                    measuredPhaseSkewSec =
                      mult_double ((phase_deg (dsaOutput ! j) - phase_deg (mioOutput ! j)) / 360)
                        (div_double 1 (real j * (sampleRate / real_of_int sampsPerChan))),
                    measuredFreq = real j * (sampleRate / real_of_int sampsPerChan)\<rparr>"
      using last by blast
  qed
next
  show "(\<forall>i<501. \<not> (5 \<le> magnitude (dsaOutput ! i) \<and> 5 \<le> magnitude (mioOutput ! i)))
            \<longrightarrow> RefClk_EveryNCallback dsaOutput mioOutput =
                  Inr \<lparr>measuredPhaseSkewDeg = 0, measuredPhaseSkewSec = Finite 0,
                       measuredFreq = 0\<rparr>"
  proof
    assume quiet: "\<forall>i<501. \<not> (5 \<le> magnitude (dsaOutput ! i) \<and> 5 \<le> magnitude (mioOutput ! i))"
    have "fst (RefClk_loop RefClk_sampleRate RefClk_sampsPerChan
                 (long_long_to_int RefClk_sampsPerChan) dsaOutput mioOutput (0 + 501)
                 (\<lparr>measuredPhaseSkewDeg = 0, measuredPhaseSkewSec = Finite 0,
                   measuredFreq = 0\<rparr>, []))
        = fst (RefClk_loop RefClk_sampleRate RefClk_sampsPerChan
                 (long_long_to_int RefClk_sampsPerChan) dsaOutput mioOutput 0
                 (\<lparr>measuredPhaseSkewDeg = 0, measuredPhaseSkewSec = Finite 0,
                   measuredFreq = 0\<rparr>, []))"
      by (rule RefClk_loop_frame) (use quiet in simp)
    then show "RefClk_EveryNCallback dsaOutput mioOutput =
                  Inr \<lparr>measuredPhaseSkewDeg = 0, measuredPhaseSkewSec = Finite 0,
                       measuredFreq = 0\<rparr>"
      by (simp add: RefClk_EveryNCallback_def RefClk_DFT_def sizes_configured)
  qed
qed

text \<open>
  C10 on a spectrum where bins 0 and 2 pass the gate (the triple of bin 2 is
  reported), and on 501 silent bins in the callback.
\<close>

theorem C10_outputs_written_only_in_gate_witness:
  "0 < long_long_to_int 4
   \<and> RefClk_DFT [(8, 0), (1, 0), (6, 0)] [(8, 0), (1, 0), (6, 0)] 10000 4
       \<lparr>measuredPhaseSkewDeg = 0, measuredPhaseSkewSec = Finite 0, measuredFreq = 0\<rparr> =
     Inr (\<lparr>measuredPhaseSkewDeg =
             NormalizePhaseAngleDifference (phase_deg (6, 0) - phase_deg (6, 0)),
           measuredPhaseSkewSec =
             mult_double ((phase_deg (6, 0) - phase_deg (6, 0)) / 360)
               (div_double 1 (real 2 * (10000 / real_of_int 4))),
           measuredFreq = real 2 * (10000 / real_of_int 4)\<rparr>,
          [\<lparr>row_freq = 0, row_dsaMagnitude = 8, row_dsaAmplitude = 4,
             row_mioMagnitude = 8, row_mioAmplitude = 4\<rparr>,
           \<lparr>row_freq = 2500, row_dsaMagnitude = 1, row_dsaAmplitude = 1 / 2,
             row_mioMagnitude = 1, row_mioAmplitude = 1 / 2\<rparr>,
           \<lparr>row_freq = 5000, row_dsaMagnitude = 6, row_dsaAmplitude = 3,
             row_mioMagnitude = 6, row_mioAmplitude = 3\<rparr>])
   \<and> RefClk_EveryNCallback (replicate 501 (0, 0)) (replicate 501 (0, 0)) =
       Inr \<lparr>measuredPhaseSkewDeg = 0, measuredPhaseSkewSec = Finite 0, measuredFreq = 0\<rparr>"
proof -
  have pos: "0 < long_long_to_int 4" by (simp add: sizes_4)
  have quiet: "\<forall>i<501. \<not> (5 \<le> magnitude (replicate 501 (0, 0) ! i)
                           \<and> 5 \<le> magnitude (replicate 501 (0, 0) ! i))"
    by (simp add: magnitude_real)
  from C10_outputs_written_only_in_gate [OF pos, of "replicate 501 (0, 0)" "replicate 501 (0, 0)"]
    quiet
  have cb: "RefClk_EveryNCallback (replicate 501 (0, 0)) (replicate 501 (0, 0)) =
       Inr \<lparr>measuredPhaseSkewDeg = 0, measuredPhaseSkewSec = Finite 0, measuredFreq = 0\<rparr>"
    by blast
  from C10_outputs_written_only_in_gate [OF pos, of "[(8, 0), (1, 0), (6, 0)]"
      "[(8, 0), (1, 0), (6, 0)]" 10000
      "\<lparr>measuredPhaseSkewDeg = 0, measuredPhaseSkewSec = Finite 0, measuredFreq = 0\<rparr>"]
  obtain outs rows where
    run: "RefClk_DFT [(8, 0), (1, 0), (6, 0)] [(8, 0), (1, 0), (6, 0)] 10000 4
       \<lparr>measuredPhaseSkewDeg = 0, measuredPhaseSkewSec = Finite 0, measuredFreq = 0\<rparr>
       = Inr (outs, rows)"
    and last: "\<forall>j<nat (long_long_to_int 4 sdiv 2 + 1).
                5 \<le> magnitude ([(8, 0), (1, 0), (6, 0)] ! j)
                \<and> 5 \<le> magnitude ([(8, 0), (1, 0), (6, 0)] ! j)
                \<and> (\<forall>i. j < i \<and> i < nat (long_long_to_int 4 sdiv 2 + 1) \<longrightarrow>
                       \<not> (5 \<le> magnitude ([(8, 0), (1, 0), (6, 0)] ! i)
                          \<and> 5 \<le> magnitude ([(8, 0), (1, 0), (6, 0)] ! i)))
                \<longrightarrow> outs =
                  \<lparr>measuredPhaseSkewDeg =
                      NormalizePhaseAngleDifference
                        (phase_deg ([(8, 0), (1, 0), (6, 0)] ! j)
                         - phase_deg ([(8, 0), (1, 0), (6, 0)] ! j)),
                    measuredPhaseSkewSec =
                      mult_double ((phase_deg ([(8, 0), (1, 0), (6, 0)] ! j)
                                    - phase_deg ([(8, 0), (1, 0), (6, 0)] ! j)) / 360)
                        (div_double 1 (real j * (10000 / real_of_int 4))),
                    measuredFreq = real j * (10000 / real_of_int 4)\<rparr>"
    by blast
  from last [rule_format, of 2]
  have "outs = \<lparr>measuredPhaseSkewDeg =
             NormalizePhaseAngleDifference (phase_deg (6, 0) - phase_deg (6, 0)),
           measuredPhaseSkewSec =
             mult_double ((phase_deg (6, 0) - phase_deg (6, 0)) / 360)
               (div_double 1 (real 2 * (10000 / real_of_int 4))),
           measuredFreq = real 2 * (10000 / real_of_int 4)\<rparr>"
    by (simp add: sizes_4 magnitude_real)
  with run RefClk_run_two_peaks pos cb show ?thesis by simp
qed

end
